theory Spec2Isabelle
  imports Main "HOL-Library.Word"
begin

unbundle bit_operations_syntax

section \<open>Data model\<close>

text \<open>
  A \<open>Uint8Array\<close> is a list of bytes, a JavaScript string a list of UTF-16 code units,
  a path index an unsigned 32-bit word (the value of \<open>(idx | 0x80000000) >>> 0\<close>).
\<close>

type_synonym byte = "8 word"
type_synonym bytes = "byte list"
type_synonym u32 = "32 word"
type_synonym u64 = "64 word"
type_synonym code_unit = "16 word"
type_synonym js_string = "code_unit list"

text \<open>A string literal of the source (all of them are ASCII) as code units.\<close>

definition js :: "string \<Rightarrow> js_string" where
  "js s = map of_char s"

text \<open>
  The exceptions of the source. \<open>InvalidPathFormat\<close> is
  \<open>new Error('Path must start with "m"')\<close>, \<open>InvalidPathSegment seg\<close> is
  \<open>new Error('Invalid path segment: ' + seg)\<close>, and \<open>RangeError\<close> is what
  \<open>TypedArray.prototype.set\<close> and \<open>DataView.prototype.setUint32\<close> throw on a write that
  does not fit.
\<close>

datatype error = InvalidPathFormat | InvalidPathSegment js_string | RangeError

text \<open>The object \<open>{ key, chainCode }\<close> that \<open>derivePath\<close> returns.\<close>

record extended_key =
  key :: bytes
  chainCode :: bytes

section \<open>The hash library\<close>

text \<open>
  \<open>hmac\<close> and \<open>sha512\<close> are imported from the package \<open>@noble/hashes\<close>, which is not
  part of the repository. They are modelled here from the standards the package
  implements: SHA-512 of FIPS 180-4 and HMAC of RFC 2104. The argument order of \<open>hmac\<close> is
  the package's: \<open>hmac(hash, key, message)\<close>.
\<close>

definition K512 :: "u64 list" where
  "K512 = [
    0x428A2F98D728AE22, 0x7137449123EF65CD, 0xB5C0FBCFEC4D3B2F, 0xE9B5DBA58189DBBC,
    0x3956C25BF348B538, 0x59F111F1B605D019, 0x923F82A4AF194F9B, 0xAB1C5ED5DA6D8118,
    0xD807AA98A3030242, 0x12835B0145706FBE, 0x243185BE4EE4B28C, 0x550C7DC3D5FFB4E2,
    0x72BE5D74F27B896F, 0x80DEB1FE3B1696B1, 0x9BDC06A725C71235, 0xC19BF174CF692694,
    0xE49B69C19EF14AD2, 0xEFBE4786384F25E3, 0x0FC19DC68B8CD5B5, 0x240CA1CC77AC9C65,
    0x2DE92C6F592B0275, 0x4A7484AA6EA6E483, 0x5CB0A9DCBD41FBD4, 0x76F988DA831153B5,
    0x983E5152EE66DFAB, 0xA831C66D2DB43210, 0xB00327C898FB213F, 0xBF597FC7BEEF0EE4,
    0xC6E00BF33DA88FC2, 0xD5A79147930AA725, 0x06CA6351E003826F, 0x142929670A0E6E70,
    0x27B70A8546D22FFC, 0x2E1B21385C26C926, 0x4D2C6DFC5AC42AED, 0x53380D139D95B3DF,
    0x650A73548BAF63DE, 0x766A0ABB3C77B2A8, 0x81C2C92E47EDAEE6, 0x92722C851482353B,
    0xA2BFE8A14CF10364, 0xA81A664BBC423001, 0xC24B8B70D0F89791, 0xC76C51A30654BE30,
    0xD192E819D6EF5218, 0xD69906245565A910, 0xF40E35855771202A, 0x106AA07032BBD1B8,
    0x19A4C116B8D2D0C8, 0x1E376C085141AB53, 0x2748774CDF8EEB99, 0x34B0BCB5E19B48A8,
    0x391C0CB3C5C95A63, 0x4ED8AA4AE3418ACB, 0x5B9CCA4F7763E373, 0x682E6FF3D6B2B8A3,
    0x748F82EE5DEFB2FC, 0x78A5636F43172F60, 0x84C87814A1F0AB72, 0x8CC702081A6439EC,
    0x90BEFFFA23631E28, 0xA4506CEBDE82BDE9, 0xBEF9A3F7B2C67915, 0xC67178F2E372532B,
    0xCA273ECEEA26619C, 0xD186B8C721C0C207, 0xEADA7DD6CDE0EB1E, 0xF57D4F7FEE6ED178,
    0x06F067AA72176FBA, 0x0A637DC5A2C898A6, 0x113F9804BEF90DAE, 0x1B710B35131C471B,
    0x28DB77F523047D84, 0x32CAAB7B40C72493, 0x3C9EBE0A15C9BEBC, 0x431D67C49C100D4C,
    0x4CC5D4BECB3E42B6, 0x597F299CFC657E2A, 0x5FCB6FAB3AD6FAEC, 0x6C44198C4A475817]"

definition rotr64 :: "nat \<Rightarrow> u64 \<Rightarrow> u64" where
  "rotr64 n x = drop_bit n x OR push_bit (64 - n) x"

definition Ch :: "u64 \<Rightarrow> u64 \<Rightarrow> u64 \<Rightarrow> u64" where
  "Ch x y z = (x AND y) XOR (NOT x AND z)"

definition Maj :: "u64 \<Rightarrow> u64 \<Rightarrow> u64 \<Rightarrow> u64" where
  "Maj x y z = (x AND y) XOR (x AND z) XOR (y AND z)"

definition bsig0 :: "u64 \<Rightarrow> u64" where
  "bsig0 x = rotr64 28 x XOR rotr64 34 x XOR rotr64 39 x"

definition bsig1 :: "u64 \<Rightarrow> u64" where
  "bsig1 x = rotr64 14 x XOR rotr64 18 x XOR rotr64 41 x"

definition ssig0 :: "u64 \<Rightarrow> u64" where
  "ssig0 x = rotr64 1 x XOR rotr64 8 x XOR drop_bit 7 x"

definition ssig1 :: "u64 \<Rightarrow> u64" where
  "ssig1 x = rotr64 19 x XOR rotr64 61 x XOR drop_bit 6 x"

text \<open>Big-endian conversions between bytes and 64-bit words.\<close>

definition be_word :: "bytes \<Rightarrow> u64" where
  "be_word bs = foldl (\<lambda>acc b. push_bit 8 acc OR ucast b) 0 bs"

definition word_be :: "u64 \<Rightarrow> bytes" where
  "word_be x = map (\<lambda>i. ucast (drop_bit (8 * i) x)) [7, 6, 5, 4, 3, 2, 1, 0]"

definition len_be :: "128 word \<Rightarrow> bytes" where
  "len_be n = map (\<lambda>i. ucast (drop_bit (8 * i) n))
     [15, 14, 13, 12, 11, 10, 9, 8, 7, 6, 5, 4, 3, 2, 1, 0]"

text \<open>
  Padding: the byte \<open>0x80\<close>, zero bytes up to 112 modulo 128, and the length of the
  message in bits as a 128-bit big-endian number.
\<close>

definition sha_pad :: "bytes \<Rightarrow> bytes" where
  "sha_pad m = m @ [0x80] @ replicate ((239 - length m mod 128) mod 128) 0
                 @ len_be (8 * of_nat (length m))"

fun chunks :: "nat \<Rightarrow> nat \<Rightarrow> 'a list \<Rightarrow> 'a list list" where
  "chunks 0 n xs = []"
| "chunks (Suc k) n xs = take n xs # chunks k n (drop n xs)"

text \<open>A block as big-endian 64-bit words, eight bytes each.\<close>

fun be_words :: "bytes \<Rightarrow> u64 list" where
  "be_words bs =
     (if length bs < 8 then [] else be_word (take 8 bs) # be_words (drop 8 bs))"

declare be_words.simps [simp del]

text \<open>
  The message schedule, the latest word first: \<open>W\<^sub>t\<close> is computed from \<open>W\<^sub>t\<^sub>-\<^sub>2\<close>, \<open>W\<^sub>t\<^sub>-\<^sub>7\<close>,
  \<open>W\<^sub>t\<^sub>-\<^sub>1\<^sub>5\<close> and \<open>W\<^sub>t\<^sub>-\<^sub>1\<^sub>6\<close>, which are at the positions 1, 6, 14 and 15 of the list.
\<close>

primrec schedule_rev :: "nat \<Rightarrow> u64 list \<Rightarrow> u64 list" where
  "schedule_rev 0 ws = ws"
| "schedule_rev (Suc n) ws =
     schedule_rev n ((ssig1 (ws ! 1) + ws ! 6 + ssig0 (ws ! 14) + ws ! 15) # ws)"

definition schedule :: "bytes \<Rightarrow> u64 list" where
  "schedule blk = rev (schedule_rev 64 (rev (be_words blk)))"

type_synonym hstate = "u64 \<times> u64 \<times> u64 \<times> u64 \<times> u64 \<times> u64 \<times> u64 \<times> u64"

fun round512 :: "hstate \<Rightarrow> u64 \<times> u64 \<Rightarrow> hstate" where
  "round512 (a, b, c, d, e, f, g, h) (k, w) =
     (let t1 = h + bsig1 e + Ch e f g + k + w;
          t2 = bsig0 a + Maj a b c
      in (t1 + t2, a, b, c, d + t1, e, f, g))"

fun add_state :: "hstate \<Rightarrow> hstate \<Rightarrow> hstate" where
  "add_state (a, b, c, d, e, f, g, h) (a', b', c', d', e', f', g', h') =
     (a + a', b + b', c + c', d + d', e + e', f + f', g + g', h + h')"

definition compress :: "hstate \<Rightarrow> bytes \<Rightarrow> hstate" where
  "compress st blk = add_state st (foldl round512 st (zip K512 (schedule blk)))"

fun state_bytes :: "hstate \<Rightarrow> bytes" where
  "state_bytes (a, b, c, d, e, f, g, h) =
     concat (map word_be [a, b, c, d, e, f, g, h])"

definition init_state :: hstate where
  "init_state =
     (0x6A09E667F3BCC908, 0xBB67AE8584CAA73B, 0x3C6EF372FE94F82B, 0xA54FF53A5F1D36F1,
      0x510E527FADE682D1, 0x9B05688C2B3E6C1F, 0x1F83D9ABFB41BD6B, 0x5BE0CD19137E2179)"

definition sha512_digest :: "bytes \<Rightarrow> bytes" where
  "sha512_digest m = (let p = sha_pad m in
     state_bytes (foldl compress init_state (chunks (length p div 128) 128 p)))"

text \<open>
  A hash as the package passes it around: the digest function and its block length.
\<close>

record chash =
  digest :: "bytes \<Rightarrow> bytes"
  blockLen :: nat

definition sha512 :: chash where
  "sha512 = \<lparr>digest = sha512_digest, blockLen = 128\<rparr>"

text \<open>\<open>hmac(hash, key, message)\<close>: the key comes first, the message second.\<close>

definition hmac :: "chash \<Rightarrow> bytes \<Rightarrow> bytes \<Rightarrow> bytes" where
  "hmac h k message =
     (let k0 = (if length k > blockLen h then digest h k else k);
          pad = k0 @ replicate (blockLen h - length k0) 0
      in digest h (map (\<lambda>b. b XOR 0x5C) pad @ digest h (map (\<lambda>b. b XOR 0x36) pad @ message)))"

section \<open>JavaScript numbers and \<open>parseInt\<close>\<close>

text \<open>
  The values \<open>parseInt\<close> can return: \<open>NaN\<close>, an integer-valued double, or an infinity.
  The two zeros are one value \<open>Fin 0\<close>: the source only passes the result to
  \<open>Number.isNaN\<close> and to \<open>|\<close>, which do not tell them apart.
\<close>

datatype js_number = NaN | Fin int | PosInfinity | NegInfinity

fun bit_length :: "nat \<Rightarrow> nat" where
  "bit_length n = (if n = 0 then 0 else Suc (bit_length (n div 2)))"

declare bit_length.simps [simp del]

text \<open>
  The double nearest to a natural number (ties to even), \<open>None\<close> when it is infinite.
  Below \<open>2 ^ 53\<close> every integer is a double. (For more than 20 significant digits the
  language leaves the rounding of \<open>parseInt\<close> to the implementation; the correctly rounded
  value is taken.)
\<close>

definition round_double :: "nat \<Rightarrow> nat option" where
  "round_double n =
     (if n < 2 ^ 53 then Some n
      else let sh = bit_length n - 53;
               q = n div 2 ^ sh;
               r = n mod 2 ^ sh;
               q' = (if 2 * r > 2 ^ sh \<or> (2 * r = 2 ^ sh \<and> odd q) then q + 1 else q)
           in if q' * 2 ^ sh \<ge> 2 ^ 1024 then None else Some (q' * 2 ^ sh))"

text \<open>White space and line terminators, which \<open>parseInt\<close> skips at the start.\<close>

definition is_white_space :: "code_unit \<Rightarrow> bool" where
  "is_white_space c \<longleftrightarrow>
     c \<in> {0x09, 0x0A, 0x0B, 0x0C, 0x0D, 0x20, 0xA0, 0x1680, 0x2028, 0x2029, 0x202F, 0x205F,
          0x3000, 0xFEFF}
     \<or> (0x2000 \<le> c \<and> c \<le> 0x200A)"

definition is_digit :: "code_unit \<Rightarrow> bool" where
  "is_digit c \<longleftrightarrow> 0x30 \<le> c \<and> c \<le> 0x39"

definition digits_value :: "js_string \<Rightarrow> nat" where
  "digits_value Z = foldl (\<lambda>acc c. 10 * acc + (unat c - 48)) 0 Z"

text \<open>
  \<open>parseInt(s, 10)\<close>: skip leading white space, read an optional sign, take the longest
  prefix of decimal digits; no digit gives \<open>NaN\<close>. What follows the digits is ignored.
\<close>

definition parseInt10 :: "js_string \<Rightarrow> js_number" where
  "parseInt10 s =
     (let S = dropWhile is_white_space s;
          negative = (S \<noteq> [] \<and> hd S = 0x2D);
          S' = (if S \<noteq> [] \<and> (hd S = 0x2B \<or> hd S = 0x2D) then tl S else S);
          Z = takeWhile is_digit S'
      in if Z = [] then NaN
         else case round_double (digits_value Z) of
                None \<Rightarrow> (if negative then NegInfinity else PosInfinity)
              | Some v \<Rightarrow> Fin (if negative then - int v else int v))"

definition isNaN :: "js_number \<Rightarrow> bool" where
  "isNaN x \<longleftrightarrow> x = NaN"

text \<open>
  \<open>(idx | 0x80000000) >>> 0\<close>: \<open>|\<close> takes both operands modulo \<open>2 ^ 32\<close> (\<open>NaN\<close> and the
  infinities as 0), and \<open>>>> 0\<close> reads the result as unsigned.
\<close>

definition toInt32 :: "js_number \<Rightarrow> u32" where
  "toInt32 x = (case x of Fin n \<Rightarrow> word_of_int n | _ \<Rightarrow> 0)"

definition harden :: "js_number \<Rightarrow> u32" where
  "harden idx = toInt32 idx OR 0x80000000"

section \<open>Strings\<close>

definition startsWith :: "js_string \<Rightarrow> js_string \<Rightarrow> bool" where
  "startsWith s p \<longleftrightarrow> take (length p) s = p"

definition endsWith :: "js_string \<Rightarrow> js_string \<Rightarrow> bool" where
  "endsWith s p \<longleftrightarrow> length p \<le> length s \<and> drop (length s - length p) s = p"

text \<open>\<open>s.split(d)\<close> for a separator of one code unit: never empty.\<close>

fun split :: "js_string \<Rightarrow> code_unit \<Rightarrow> js_string list" where
  "split [] d = [Nil]"
| "split (c # cs) d =
     (if c = d then [] # split cs d
      else (c # hd (split cs d)) # tl (split cs d))"

text \<open>\<open>seg.replace(/['h]$/, '')\<close>: a final \<open>'\<close> or \<open>h\<close> is removed.\<close>

definition replace_suffix :: "js_string \<Rightarrow> js_string" where
  "replace_suffix seg =
     (if seg \<noteq> [] \<and> (last seg = 0x27 \<or> last seg = 0x68) then butlast seg else seg)"

text \<open>\<open>Array.prototype.map\<close> with a callback that may throw: the first throw ends it.\<close>

fun map_throwing :: "('a \<Rightarrow> error + 'b) \<Rightarrow> 'a list \<Rightarrow> error + 'b list" where
  "map_throwing f [] = Inr []"
| "map_throwing f (x # xs) =
     (case f x of
        Inl e \<Rightarrow> Inl e
      | Inr y \<Rightarrow> (case map_throwing f xs of Inl e \<Rightarrow> Inl e | Inr ys \<Rightarrow> Inr (y # ys)))"

section \<open>Typed arrays\<close>

text \<open>
  \<open>a.slice(s, e)\<close> and \<open>a.slice(s)\<close> for indices that are not negative: the indices are
  clamped to the length.
\<close>

definition slice_bytes :: "bytes \<Rightarrow> nat \<Rightarrow> nat \<Rightarrow> bytes" where
  "slice_bytes a s e = take (e - s) (drop s a)"

definition slice_from :: "bytes \<Rightarrow> nat \<Rightarrow> bytes" where
  "slice_from a s = drop s a"

text \<open>\<open>buf.set(src, offset)\<close>: throws when the source does not fit.\<close>

definition set_bytes :: "bytes \<Rightarrow> bytes \<Rightarrow> nat \<Rightarrow> error + bytes" where
  "set_bytes buf src offset =
     (if length src + offset > length buf then Inl RangeError
      else Inr (take offset buf @ src @ drop (offset + length src) buf))"

text \<open>
  \<open>new DataView(buf.buffer).setUint32(byteOffset, v, false)\<close>: four bytes, the most
  significant first; throws when they do not fit.
\<close>

definition setUint32 :: "bytes \<Rightarrow> nat \<Rightarrow> u32 \<Rightarrow> error + bytes" where
  "setUint32 buf byteOffset v =
     (if byteOffset + 4 > length buf then Inl RangeError
      else Inr (take byteOffset buf
                @ [ucast (drop_bit 24 v), ucast (drop_bit 16 v), ucast (drop_bit 8 v), ucast v]
                @ drop (byteOffset + 4) buf))"

text \<open>
  What the source does in order, for the claims about that order: each call of \<open>hmac\<close>
  with its key and message, and the call of \<open>parsePath\<close>.
\<close>

datatype event = HmacCall bytes bytes | ParseCall js_string

section \<open>\<open>ed25519Slip10.ts\<close>\<close>

definition SEED_KEY :: bytes where
  "SEED_KEY = map of_char ''ed25519 seed''"

definition segment_ts :: "js_string \<Rightarrow> error + u32" where
  "segment_ts seg =
     (let idx = parseInt10 (replace_suffix seg)
      in if isNaN idx then Inl (InvalidPathSegment seg) else Inr (harden idx))"

definition parsePath_ts :: "js_string \<Rightarrow> error + u32 list" where
  "parsePath_ts path =
     (if \<not> startsWith path (js ''m'') then Inl InvalidPathFormat
      else map_throwing segment_ts (drop 1 (split path 0x2F)))"

text \<open>The body of the \<open>for\<close> loop of \<open>derivePath\<close>.\<close>

definition derive_step_ts :: "extended_key \<Rightarrow> u32 \<Rightarrow> error + extended_key" where
  "derive_step_ts ek index =
     (let buf = replicate 37 0
      in case set_bytes buf (key ek) 1 of
           Inl e \<Rightarrow> Inl e
         | Inr buf \<Rightarrow>
             (case setUint32 buf 33 index of
                Inl e \<Rightarrow> Inl e
              | Inr buf \<Rightarrow>
                  let I = hmac sha512 buf (chainCode ek)
                  in Inr \<lparr>key = slice_bytes I 0 32, chainCode = slice_from I 32\<rparr>))"

fun derive_loop_ts :: "extended_key \<Rightarrow> u32 list \<Rightarrow> error + extended_key" where
  "derive_loop_ts ek [] = Inr ek"
| "derive_loop_ts ek (index # indices) =
     (case derive_step_ts ek index of
        Inl e \<Rightarrow> Inl e
      | Inr ek' \<Rightarrow> derive_loop_ts ek' indices)"

definition derivePath_ts :: "bytes \<Rightarrow> js_string \<Rightarrow> error + extended_key" where
  "derivePath_ts seed path =
     (let master = hmac sha512 seed SEED_KEY;
          k = slice_bytes master 0 32;
          c = slice_from master 32
      in case parsePath_ts path of
           Inl e \<Rightarrow> Inl e
         | Inr indices \<Rightarrow> derive_loop_ts \<lparr>key = k, chainCode = c\<rparr> indices)"

text \<open>The same function with its calls recorded in order.\<close>

fun derive_loop_ts_traced ::
  "extended_key \<Rightarrow> u32 list \<Rightarrow> event list \<times> (error + extended_key)" where
  "derive_loop_ts_traced ek [] = ([], Inr ek)"
| "derive_loop_ts_traced ek (index # indices) =
     (case set_bytes (replicate 37 0) (key ek) 1 of
        Inl e \<Rightarrow> ([], Inl e)
      | Inr buf \<Rightarrow>
          (case setUint32 buf 33 index of
             Inl e \<Rightarrow> ([], Inl e)
           | Inr buf \<Rightarrow>
               let I = hmac sha512 buf (chainCode ek);
                   (evs, r) = derive_loop_ts_traced
                                \<lparr>key = slice_bytes I 0 32, chainCode = slice_from I 32\<rparr> indices
               in (HmacCall buf (chainCode ek) # evs, r)))"

definition derivePath_ts_traced ::
  "bytes \<Rightarrow> js_string \<Rightarrow> event list \<times> (error + extended_key)" where
  "derivePath_ts_traced seed path =
     (let master = hmac sha512 seed SEED_KEY;
          k = slice_bytes master 0 32;
          c = slice_from master 32
      in case parsePath_ts path of
           Inl e \<Rightarrow> ([HmacCall seed SEED_KEY, ParseCall path], Inl e)
         | Inr indices \<Rightarrow>
             let (evs, r) = derive_loop_ts_traced \<lparr>key = k, chainCode = c\<rparr> indices
             in (HmacCall seed SEED_KEY # ParseCall path # evs, r))"

section \<open>\<open>ed25519Slip10.js\<close>\<close>

definition ED25519_SEED :: bytes where
  "ED25519_SEED = map of_char ''ed25519 seed''"

definition segment_js :: "js_string \<Rightarrow> error + u32" where
  "segment_js p =
     (let hardened = (endsWith p (js [CHR 0x27]) \<or> endsWith p (js ''h''));
          index = parseInt10 (if hardened then take (length p - 1) p else p)
      in if isNaN index then Inl (InvalidPathSegment p) else Inr (harden index))"

definition parsePath_js :: "js_string \<Rightarrow> error + u32 list" where
  "parsePath_js path =
     (if \<not> startsWith path (js ''m'') then Inl InvalidPathFormat
      else let parts = drop 1 (split path 0x2F) in map_throwing segment_js parts)"

definition hmacSha512 :: "bytes \<Rightarrow> bytes \<Rightarrow> bytes" where
  "hmacSha512 k data = hmac sha512 data k"

definition derive_step_js :: "extended_key \<Rightarrow> u32 \<Rightarrow> error + extended_key" where
  "derive_step_js ek index =
     (let privKey = key ek;
          data = replicate (1 + length privKey + 4) 0;
          data = data[0 := 0x00]
      in case set_bytes data privKey 1 of
           Inl e \<Rightarrow> Inl e
         | Inr data \<Rightarrow>
             let data = data[length data - 4 := ucast (drop_bit 24 index AND 0xff)];
                 data = data[length data - 3 := ucast (drop_bit 16 index AND 0xff)];
                 data = data[length data - 2 := ucast (drop_bit 8 index AND 0xff)];
                 data = data[length data - 1 := ucast (index AND 0xff)];
                 I2 = hmacSha512 (chainCode ek) data
             in Inr \<lparr>key = slice_bytes I2 0 32, chainCode = slice_bytes I2 32 64\<rparr>)"

fun derive_loop_js :: "extended_key \<Rightarrow> u32 list \<Rightarrow> error + extended_key" where
  "derive_loop_js ek [] = Inr ek"
| "derive_loop_js ek (index # indices) =
     (case derive_step_js ek index of
        Inl e \<Rightarrow> Inl e
      | Inr ek' \<Rightarrow> derive_loop_js ek' indices)"

definition derivePath_js :: "bytes \<Rightarrow> js_string \<Rightarrow> error + extended_key" where
  "derivePath_js seed path =
     (let I = hmacSha512 ED25519_SEED seed;
          privKey = slice_bytes I 0 32;
          c = slice_bytes I 32 64
      in case parsePath_js path of
           Inl e \<Rightarrow> Inl e
         | Inr indices \<Rightarrow> derive_loop_js \<lparr>key = privKey, chainCode = c\<rparr> indices)"

text \<open>The same function with its calls recorded in order.\<close>

fun derive_loop_js_traced ::
  "extended_key \<Rightarrow> u32 list \<Rightarrow> event list \<times> (error + extended_key)" where
  "derive_loop_js_traced ek [] = ([], Inr ek)"
| "derive_loop_js_traced ek (index # indices) =
     (let privKey = key ek;
          data = replicate (1 + length privKey + 4) 0;
          data = data[0 := 0x00]
      in case set_bytes data privKey 1 of
           Inl e \<Rightarrow> ([], Inl e)
         | Inr data \<Rightarrow>
             let data = data[length data - 4 := ucast (drop_bit 24 index AND 0xff)];
                 data = data[length data - 3 := ucast (drop_bit 16 index AND 0xff)];
                 data = data[length data - 2 := ucast (drop_bit 8 index AND 0xff)];
                 data = data[length data - 1 := ucast (index AND 0xff)];
                 I2 = hmacSha512 (chainCode ek) data;
                 (evs, r) = derive_loop_js_traced
                              \<lparr>key = slice_bytes I2 0 32, chainCode = slice_bytes I2 32 64\<rparr> indices
             in (HmacCall data (chainCode ek) # evs, r))"

definition derivePath_js_traced ::
  "bytes \<Rightarrow> js_string \<Rightarrow> event list \<times> (error + extended_key)" where
  "derivePath_js_traced seed path =
     (let I = hmacSha512 ED25519_SEED seed;
          privKey = slice_bytes I 0 32;
          c = slice_bytes I 32 64
      in case parsePath_js path of
           Inl e \<Rightarrow> ([HmacCall seed ED25519_SEED, ParseCall path], Inl e)
         | Inr indices \<Rightarrow>
             let (evs, r) = derive_loop_js_traced \<lparr>key = privKey, chainCode = c\<rparr> indices
             in (HmacCall seed ED25519_SEED # ParseCall path # evs, r))"

section \<open>The derivation as the specification words it\<close>

text \<open>
  The master pair and the child step of the specification, for comparison with the
  source: the fixed string and the parent chain code are the HMAC keys, the seed and the
  37-byte buffer the messages.
\<close>

definition be32 :: "u32 \<Rightarrow> bytes" where
  "be32 v = [ucast (drop_bit 24 v), ucast (drop_bit 16 v), ucast (drop_bit 8 v), ucast v]"

definition spec_masterKey :: "bytes \<Rightarrow> extended_key" where
  "spec_masterKey seed =
     (let I = hmac sha512 (map of_char ''ed25519 seed'') seed
      in \<lparr>key = take 32 I, chainCode = drop 32 I\<rparr>)"

definition spec_deriveChild :: "extended_key \<Rightarrow> u32 \<Rightarrow> extended_key" where
  "spec_deriveChild parent index =
     (let I = hmac sha512 (chainCode parent) ([0] @ key parent @ be32 index)
      in \<lparr>key = take 32 I, chainCode = drop 32 I\<rparr>)"

text \<open>
  A segment remainder that is a non-negative base-10 integer in the specification's
  sense: decimal digits, at least one.
\<close>

definition spec_nonneg_integer :: "js_string \<Rightarrow> bool" where
  "spec_nonneg_integer s \<longleftrightarrow> s \<noteq> [] \<and> list_all is_digit s"

text \<open>A seed of 64 zero bytes, for the examples.\<close>

definition zero_seed :: bytes where
  "zero_seed = replicate 64 0"

section \<open>Words as lists of bits\<close>

text \<open>
  For evaluating the hash on concrete bytes: a word is written as the list of its bits,
  the least significant first, and the operations of SHA-512 are computed on the lists.
\<close>

definition wbits :: "bool list \<Rightarrow> 'a::len word" where
  "wbits bs = horner_sum of_bool 2 bs"

definition bx :: "bool \<Rightarrow> bool \<Rightarrow> bool" where
  "bx a b \<longleftrightarrow> a \<noteq> b"

definition bch :: "bool \<Rightarrow> bool \<Rightarrow> bool \<Rightarrow> bool" where
  "bch a b c \<longleftrightarrow> (if a then b else c)"

definition bmaj :: "bool \<Rightarrow> bool \<Rightarrow> bool \<Rightarrow> bool" where
  "bmaj a b c \<longleftrightarrow> (a \<and> b) \<or> (a \<and> c) \<or> (b \<and> c)"

fun addc :: "bool \<Rightarrow> bool list \<Rightarrow> bool list \<Rightarrow> bool list" where
  "addc c (a # as) (b # bs) = bx (bx a b) c # addc (bmaj a b c) as bs"
| "addc c as bs = []"

primrec num_bits :: "num \<Rightarrow> bool list" where
  "num_bits num.One = [True]"
| "num_bits (num.Bit0 n) = False # num_bits n"
| "num_bits (num.Bit1 n) = True # num_bits n"

fun pad_to :: "unit list \<Rightarrow> bool list \<Rightarrow> bool list" where
  "pad_to [] bs = []"
| "pad_to (u # us) [] = False # pad_to us []"
| "pad_to (u # us) (b # bs) = b # pad_to us bs"


text \<open>
  The seed of the first test vector of SLIP-10, and the pair that \<open>derivePath\<close> returns
  for it on the path \<open>m\<close>.
\<close>

definition tv1_seed :: bytes where
  "tv1_seed = [0x00, 0x01, 0x02, 0x03, 0x04, 0x05, 0x06, 0x07,
               0x08, 0x09, 0x0A, 0x0B, 0x0C, 0x0D, 0x0E, 0x0F]"

definition tv1_master :: extended_key where
  "tv1_master =
     \<lparr>key =
        [0x55, 0xF4, 0xBC, 0x2F, 0xB7, 0xBB, 0xF5, 0x37, 0x21, 0x2C, 0x7A, 0x8E, 0xC5, 0x09, 0x60, 0xCD,
         0xE0, 0x0B, 0x8A, 0xA6, 0xA5, 0xF1, 0xFD, 0x25, 0x5F, 0x15, 0xB1, 0xF6, 0x97, 0x6E, 0xAF, 0x6E],
      chainCode =
        [0x07, 0x2B, 0x14, 0x69, 0x2C, 0x00, 0x2A, 0x02, 0x8B, 0xEE, 0x5B, 0xD4, 0x49, 0x47, 0x67, 0x91,
         0x68, 0x6D, 0x4D, 0x60, 0x9A, 0x7C, 0x1B, 0x04, 0x3D, 0xF1, 0x40, 0x1B, 0x3F, 0xE4, 0x7B, 0xE0]\<rparr>"

section \<open>The digest has 64 bytes\<close>

lemma length_word_be: "length (word_be x) = 8"
  by (simp add: word_be_def)

lemma length_state_bytes: "length (state_bytes st) = 64"
  by (induct st rule: state_bytes.induct) (simp add: length_word_be)

lemma length_sha512_digest: "length (sha512_digest m) = 64"
  by (simp add: sha512_digest_def Let_def length_state_bytes)

lemma length_hmac_sha512: "length (hmac sha512 k m) = 64"
  by (simp add: hmac_def sha512_def Let_def length_sha512_digest)

lemma master_lengths:
  "length (slice_bytes (hmac sha512 k m) 0 32) = 32"
  "length (slice_from (hmac sha512 k m) 32) = 32"
  "length (slice_bytes (hmac sha512 k m) 32 64) = 32"
  by (simp_all add: slice_bytes_def slice_from_def length_hmac_sha512)

lemma slice_32_64: "slice_bytes (hmac sha512 k m) 32 64 = slice_from (hmac sha512 k m) 32"
  by (simp add: slice_bytes_def slice_from_def length_hmac_sha512)

section \<open>The two parsers agree\<close>

lemma endsWith_single: "endsWith p (js [c]) \<longleftrightarrow> p \<noteq> [] \<and> last p = of_char c"
proof (cases p rule: rev_cases)
  case Nil
  then show ?thesis by (simp add: endsWith_def js_def)
next
  case (snoc ys y)
  then show ?thesis by (auto simp add: endsWith_def js_def)
qed

lemma segment_js_eq_ts: "segment_js p = segment_ts p"
  by (simp add: segment_js_def segment_ts_def replace_suffix_def endsWith_single
      butlast_conv_take)

lemma parsePath_js_eq_ts: "parsePath_js path = parsePath_ts path"
proof -
  have "segment_js = segment_ts" by (rule ext) (rule segment_js_eq_ts)
  then show ?thesis by (simp add: parsePath_js_def parsePath_ts_def)
qed

section \<open>The loop body\<close>

lemma ucast_and_ff: "(ucast (x AND 0xff :: u32) :: byte) = ucast x"
proof -
  have m: "(0xff :: u32) = mask 8" by (simp add: mask_eq_exp_minus_1)
  show ?thesis unfolding m by (rule bit_word_eqI) (simp add: bit_simps)
qed

lemma replicate4_update:
  "(replicate 4 (0::byte))[0 := a, Suc 0 := b, 2 := c, 3 := d] = [a, b, c, d]"
  by (simp add: numeral_eq_Suc)

lemma replicate37_head: "take (Suc 0) ((replicate 37 (0::byte))[0 := 0]) = [0]"
  by (simp add: numeral_eq_Suc)

text \<open>
  With a 32-byte key both files build the same 37-byte buffer, and pass it to \<open>hmac\<close>
  in the key position, the chain code in the message position.
\<close>

lemma step_buf_ts:
  assumes "length (key ek) = 32"
  shows "derive_step_ts ek i =
    (let I = hmac sha512 ([0] @ key ek @ be32 i) (chainCode ek)
     in Inr \<lparr>key = take 32 I, chainCode = drop 32 I\<rparr>)"
  using assms
  by (simp add: derive_step_ts_def set_bytes_def setUint32_def be32_def slice_bytes_def
      slice_from_def Let_def)

lemma step_buf_js:
  assumes "length (key ek) = 32"
  shows "derive_step_js ek i =
    (let I = hmac sha512 ([0] @ key ek @ be32 i) (chainCode ek)
     in Inr \<lparr>key = take 32 I, chainCode = drop 32 I\<rparr>)"
  using assms
  by (simp add: derive_step_js_def set_bytes_def hmacSha512_def be32_def slice_bytes_def Let_def
      ucast_and_ff length_hmac_sha512 list_update_append replicate4_update replicate37_head)

lemma step_ts_lengths:
  assumes "length (key ek) = 32" and "derive_step_ts ek i = r"
  shows "\<exists>ek'. r = Inr ek' \<and> length (key ek') = 32 \<and> length (chainCode ek') = 32"
  using assms by (auto simp add: step_buf_ts Let_def length_hmac_sha512)

section \<open>The loop\<close>

lemma loop_js_eq_ts:
  "length (key ek) = 32 \<Longrightarrow> derive_loop_js ek indices = derive_loop_ts ek indices"
proof (induction indices arbitrary: ek)
  case Nil
  then show ?case by simp
next
  case (Cons i indices)
  obtain ek' where s: "derive_step_ts ek i = Inr ek'" and l: "length (key ek') = 32"
    using step_ts_lengths [OF Cons.prems refl] by blast
  have "derive_step_js ek i = Inr ek'"
    using s by (simp add: step_buf_ts [OF Cons.prems] step_buf_js [OF Cons.prems])
  then show ?case using s Cons.IH [OF l] by simp
qed

lemma loop_ts_lengths:
  "length (key ek) = 32 \<Longrightarrow> length (chainCode ek) = 32 \<Longrightarrow>
     \<exists>ek'. derive_loop_ts ek indices = Inr ek' \<and> length (key ek') = 32
           \<and> length (chainCode ek') = 32"
proof (induction indices arbitrary: ek)
  case Nil
  then show ?case by simp
next
  case (Cons i indices)
  obtain ek' where s: "derive_step_ts ek i = Inr ek'" and l: "length (key ek') = 32"
      and c: "length (chainCode ek') = 32"
    using step_ts_lengths [OF Cons.prems(1) refl] by blast
  show ?case using s Cons.IH [OF l c] by simp
qed

text \<open>The value after the first indices is the value the loop threads on.\<close>

lemma loop_ts_append:
  "derive_loop_ts ek (xs @ ys) =
     (case derive_loop_ts ek xs of Inl e \<Rightarrow> Inl e | Inr ek' \<Rightarrow> derive_loop_ts ek' ys)"
  by (induction xs arbitrary: ek) (auto split: sum.splits)

lemma SEED_eq: "ED25519_SEED = SEED_KEY"
  by (simp add: ED25519_SEED_def SEED_KEY_def)

lemma derivePath_js_eq_ts: "derivePath_js seed path = derivePath_ts seed path"
  by (simp add: derivePath_js_def derivePath_ts_def hmacSha512_def SEED_eq parsePath_js_eq_ts
      slice_32_64 Let_def loop_js_eq_ts master_lengths split: sum.splits)

lemma derivePath_ts_ok:
  assumes "parsePath_ts path = Inr indices"
  shows "\<exists>ek. derivePath_ts seed path = Inr ek \<and> length (key ek) = 32
              \<and> length (chainCode ek) = 32"
  using assms loop_ts_lengths [of "\<lparr>key = slice_bytes (hmac sha512 seed SEED_KEY) 0 32,
      chainCode = slice_from (hmac sha512 seed SEED_KEY) 32\<rparr>" indices]
  by (simp add: derivePath_ts_def Let_def master_lengths)

lemma derivePath_ts_err:
  assumes "parsePath_ts path = Inl e"
  shows "derivePath_ts seed path = Inl e"
  using assms by (simp add: derivePath_ts_def Let_def)

section \<open>The parser\<close>

lemma map_throwing_Inr:
  "map_throwing f xs = Inr ys \<Longrightarrow>
     length ys = length xs \<and> (\<forall>n < length xs. f (xs ! n) = Inr (ys ! n))"
proof (induction xs arbitrary: ys)
  case Nil
  then show ?case by simp
next
  case (Cons x xs)
  then show ?case
    by (auto split: sum.splits simp add: nth_Cons split: nat.splits)
qed

lemma map_throwing_fails:
  assumes "x \<in> set xs" and "\<exists>e. f x = Inl e"
  shows "\<exists>e x'. x' \<in> set xs \<and> f x' = Inl e \<and> map_throwing f xs = Inl e"
  using assms
proof (induction xs)
  case Nil
  then show ?case by simp
next
  case (Cons a xs)
  show ?case
  proof (cases "f a")
    case (Inl e)
    then show ?thesis by auto
  next
    case (Inr y)
    then have "x \<in> set xs" using Cons.prems by auto
    then obtain e x' where "x' \<in> set xs" "f x' = Inl e" "map_throwing f xs = Inl e"
      using Cons.IH Cons.prems(2) by blast
    then show ?thesis using Inr by auto
  qed
qed

lemmas parse_defs = parsePath_ts_def js_def startsWith_def segment_ts_def replace_suffix_def
  parseInt10_def is_white_space_def is_digit_def digits_value_def round_double_def isNaN_def
  harden_def toInt32_def

lemma harden_msb: "0x80000000 \<le> harden x \<and> bit (harden x) 31"
proof -
  have "(0x80000000 :: u32) \<le> 0x80000000 OR toInt32 x" by (rule le_word_or2)
  moreover have "bit (0x80000000 :: u32) 31"
  proof -
    have "(0x80000000 :: u32) = push_bit 31 1" by simp
    then show ?thesis by (simp only: bit_simps) simp
  qed
  ultimately show ?thesis by (simp add: harden_def or.commute bit_or_iff)
qed

lemma segment_ts_Inr:
  "segment_ts seg = Inr i \<Longrightarrow> i = harden (parseInt10 (replace_suffix seg))"
  by (simp add: segment_ts_def Let_def split: if_splits)

lemma parsePath_ts_Inr:
  assumes "parsePath_ts path = Inr indices"
  shows "startsWith path (js ''m'')"
    and "length indices = length (drop 1 (split path 0x2F))"
    and "\<And>k. k < length indices \<Longrightarrow>
           segment_ts (drop 1 (split path 0x2F) ! k) = Inr (indices ! k)"
proof -
  show s: "startsWith path (js ''m'')"
    using assms by (simp add: parsePath_ts_def split: if_splits)
  then have m: "map_throwing segment_ts (drop 1 (split path 0x2F)) = Inr indices"
    using assms by (simp add: parsePath_ts_def)
  from map_throwing_Inr [OF m]
  show "length indices = length (drop 1 (split path 0x2F))" by simp
  fix k assume "k < length indices"
  with map_throwing_Inr [OF m]
  show "segment_ts (drop 1 (split path 0x2F) ! k) = Inr (indices ! k)" by simp
qed

lemma uint_harden_Fin: "uint (harden (Fin n)) = (n mod 2 ^ 32) OR 0x80000000"
  by (simp add: harden_def toInt32_def uint_or uint_word_of_int take_bit_eq_mod)

lemma split_prefix:
  assumes "d \<notin> set a"
  shows "split (a @ d # r) d = a # split r d" and "split a d = [a]"
  using assms by (induction a) auto

lemma parse_m_7: "parsePath_ts (js ''m/7'') = Inr [0x80000007]"
  by (simp add: parse_defs)

lemma map_segment_error:
  "map_throwing segment_ts xs = Inl e \<Longrightarrow> \<exists>s. e = InvalidPathSegment s"
  by (induction xs) (auto simp add: segment_ts_def Let_def split: sum.splits if_splits)

lemma parsePath_ts_error_kind:
  assumes "parsePath_ts path = Inl e"
  shows "e = InvalidPathFormat \<or> (\<exists>s. e = InvalidPathSegment s)"
proof (cases "startsWith path (js ''m'')")
  case False
  then show ?thesis using assms by (simp add: parsePath_ts_def)
next
  case True
  then have m: "map_throwing segment_ts (drop 1 (split path 0x2F)) = Inl e"
    using assms by (simp add: parsePath_ts_def)
  from map_segment_error [OF m] show ?thesis by blast
qed

section \<open>The two files\<close>

text \<open>
  Claim C8: for every seed and every path the two files agree: either both return the
  same \<open>key\<close> and \<open>chainCode\<close>, or both fail with the same error, which is the parser's
  (no root marker, or a segment that does not parse).
\<close>

theorem ts_js_same_result:
  "(\<exists>ek. derivePath_ts seed path = Inr ek \<and> derivePath_js seed path = Inr ek)
   \<or> (\<exists>e. derivePath_ts seed path = Inl e \<and> derivePath_js seed path = Inl e
          \<and> parsePath_ts path = Inl e \<and> parsePath_js path = Inl e
          \<and> (e = InvalidPathFormat \<or> (\<exists>s. e = InvalidPathSegment s)))"
proof (cases "parsePath_ts path")
  case (Inl e)
  then show ?thesis
    using derivePath_ts_err [OF Inl] parsePath_ts_error_kind [OF Inl]
    by (simp add: derivePath_js_eq_ts parsePath_js_eq_ts)
next
  case (Inr indices)
  then show ?thesis using derivePath_ts_ok [OF Inr] by (auto simp add: derivePath_js_eq_ts)
qed

lemma parsePath_ts_first_segment:
  assumes "0x2F \<notin> set s" and "rest = [] \<or> hd rest = 0x2F"
  shows "parsePath_ts (js ''m'' @ s @ rest) = parsePath_ts (js ''m'' @ rest)"
    and "parsePath_ts (js ''m'' @ s @ rest) \<noteq> Inl InvalidPathFormat"
proof -
  show e: "parsePath_ts (js ''m'' @ s @ rest) = parsePath_ts (js ''m'' @ rest)" 
  proof (cases rest)
    case Nil
    have "(0x2F :: code_unit) \<notin> set (js ''m'' @ s)" using assms(1) by (simp add: js_def)
    from split_prefix(2) [OF this] split_prefix(2) [of "0x2F" "js ''m''"] show ?thesis
      by (simp add: parsePath_ts_def startsWith_def js_def Nil)
  next
    case (Cons c r)
    then have c: "c = 0x2F" using assms(2) by simp
    have "(0x2F :: code_unit) \<notin> set (js ''m'' @ s)" using assms(1) by (simp add: js_def)
    from split_prefix(1) [OF this, of r] split_prefix(1) [of "0x2F" "js ''m''" r] show ?thesis
      by (simp add: parsePath_ts_def startsWith_def js_def Cons c)
  qed
  have "startsWith (js ''m'' @ s @ rest) (js ''m'')" by (simp add: startsWith_def js_def)
  then show "parsePath_ts (js ''m'' @ s @ rest) \<noteq> Inl InvalidPathFormat"
    by (auto simp add: parsePath_ts_def dest: map_segment_error)
qed

lemma parse_standard_ts:
  \<open>parsePath_ts (js (''m/44'/501'/0'/0'' @ [CHR 0x27]))
     = Inr [0x8000002C, 0x800001F5, 0x80000000, 0x80000000]\<close>
  by (simp add: parse_defs)

section \<open>Parsing\<close>

text \<open>
  Claim C5: parsing \<open>m/44'/501'/0'/0'\<close> succeeds and yields exactly the indices
  \<open>0x8000002C\<close>, \<open>0x800001F5\<close>, \<open>0x80000000\<close>, \<open>0x80000000\<close>, in that order, in both files.
\<close>

theorem parse_standard_path:
  \<open>parsePath_ts (js (''m/44'/501'/0'/0'' @ [CHR 0x27]))
     = Inr [0x8000002C, 0x800001F5, 0x80000000, 0x80000000]
   \<and> parsePath_js (js (''m/44'/501'/0'/0'' @ [CHR 0x27]))
     = Inr [0x8000002C, 0x800001F5, 0x80000000, 0x80000000]\<close>
  using parse_standard_ts by (simp only: parsePath_js_eq_ts)

text \<open>
  Claim C6: for every path on which parsing succeeds, every index of the result has its
  most significant bit set (it is at least \<open>0x80000000\<close>), whether its segment had a
  hardening suffix or not.
\<close>

theorem parsed_indices_hardened:
  assumes "parsePath_ts path = Inr indices \<or> parsePath_js path = Inr indices"
  shows "\<forall>i \<in> set indices. 0x80000000 \<le> i \<and> bit i 31"
proof
  fix i assume "i \<in> set indices"
  then obtain k where k: "k < length indices" "indices ! k = i"
    by (auto simp add: in_set_conv_nth)
  from assms have p: "parsePath_ts path = Inr indices" by (simp add: parsePath_js_eq_ts)
  from parsePath_ts_Inr(3) [OF p k(1)] k(2)
  have "i = harden (parseInt10 (replace_suffix (drop 1 (split path 0x2F) ! k)))"
    by (simp add: segment_ts_Inr)
  then show "0x80000000 \<le> i \<and> bit i 31" by (simp only: harden_msb)
qed

theorem parsed_indices_hardened_witness:
  "parsePath_ts (js ''m/7'') = Inr [0x80000007]
   \<and> 0x80000000 \<le> (0x80000007 :: u32) \<and> bit (0x80000007 :: u32) 31"
proof -
  from parsed_indices_hardened [of "js ''m/7''" "[0x80000007]"] parse_m_7
  have "\<forall>i \<in> set [0x80000007 :: u32]. 0x80000000 \<le> i \<and> bit i 31" by blast
  then show ?thesis using parse_m_7 by simp
qed

section \<open>Lengths\<close>

text \<open>
  Claim C7: for every seed and every valid path, \<open>derivePath\<close> returns an extended key
  whose \<open>key\<close> and \<open>chainCode\<close> have exactly 32 bytes, and so has every value the loop
  threads on: the value after the first \<open>n\<close> indices, for every \<open>n\<close>.
\<close>

theorem extended_key_lengths:
  assumes "parsePath_ts path = Inr indices"
  shows "\<exists>ek. derivePath_ts seed path = Inr ek \<and> derivePath_js seed path = Inr ek
           \<and> length (key ek) = 32 \<and> length (chainCode ek) = 32
           \<and> (\<forall>n \<le> length indices. \<exists>ek'.
                 derive_loop_ts \<lparr>key = slice_bytes (hmac sha512 seed SEED_KEY) 0 32,
                                 chainCode = slice_from (hmac sha512 seed SEED_KEY) 32\<rparr>
                   (take n indices) = Inr ek'
                 \<and> length (key ek') = 32 \<and> length (chainCode ek') = 32)"
proof -
  let ?master = "\<lparr>key = slice_bytes (hmac sha512 seed SEED_KEY) 0 32,
                   chainCode = slice_from (hmac sha512 seed SEED_KEY) 32\<rparr>"
  have m: "length (key ?master) = 32" "length (chainCode ?master) = 32"
    by (simp_all add: master_lengths)
  obtain ek where ek: "derivePath_ts seed path = Inr ek" "length (key ek) = 32"
      "length (chainCode ek) = 32"
    using derivePath_ts_ok [OF assms] by blast
  have "\<forall>n \<le> length indices. \<exists>ek'. derive_loop_ts ?master (take n indices) = Inr ek'
          \<and> length (key ek') = 32 \<and> length (chainCode ek') = 32"
    using loop_ts_lengths [OF m] by blast
  then show ?thesis using ek by (simp add: derivePath_js_eq_ts)
qed

theorem extended_key_lengths_witness:
  "\<exists>ek. derivePath_ts zero_seed (js ''m/7'') = Inr ek \<and> length (key ek) = 32
        \<and> length (chainCode ek) = 32"
  using extended_key_lengths [of "js ''m/7''" "[0x80000007]" zero_seed] parse_m_7 by blast


section \<open>The first segment\<close>

text \<open>
  Claim C9: the root check accepts every path whose first code unit is \<open>m\<close>, and the whole
  first segment is discarded: for every seed, a path whose first segment is \<open>m\<close> followed
  by any \<open>s\<close> without \<open>/\<close> gives the result of the path with first segment \<open>m\<close>, never
  \<open>InvalidPathFormat\<close>, and it succeeds whenever the remaining segments parse.
\<close>

theorem root_marker_first_segment:
  assumes "0x2F \<notin> set s" and "rest = [] \<or> hd rest = 0x2F"
  shows "derivePath_ts seed (js ''m'' @ s @ rest) = derivePath_ts seed (js ''m'' @ rest)
       \<and> derivePath_js seed (js ''m'' @ s @ rest) = derivePath_js seed (js ''m'' @ rest)
       \<and> derivePath_ts seed (js ''m'' @ s @ rest) \<noteq> Inl InvalidPathFormat
       \<and> (\<forall>indices. parsePath_ts (js ''m'' @ rest) = Inr indices \<longrightarrow>
            (\<exists>ek. derivePath_ts seed (js ''m'' @ s @ rest) = Inr ek
                 \<and> derivePath_js seed (js ''m'' @ s @ rest) = Inr ek))"
proof -
  note p = parsePath_ts_first_segment [OF assms]
  have d: "derivePath_ts seed (js ''m'' @ s @ rest) = derivePath_ts seed (js ''m'' @ rest)"
    by (simp add: derivePath_ts_def p(1))
  have "derivePath_ts seed (js ''m'' @ s @ rest) \<noteq> Inl InvalidPathFormat"
  proof (cases "parsePath_ts (js ''m'' @ s @ rest)")
    case (Inl e)
    then show ?thesis using p(2) derivePath_ts_err [OF Inl, of seed] by simp
  next
    case (Inr indices)
    then show ?thesis using derivePath_ts_ok [OF Inr, of seed] by auto
  qed
  moreover have "\<forall>indices. parsePath_ts (js ''m'' @ rest) = Inr indices \<longrightarrow>
            (\<exists>ek. derivePath_ts seed (js ''m'' @ s @ rest) = Inr ek
                 \<and> derivePath_js seed (js ''m'' @ s @ rest) = Inr ek)"
    using derivePath_ts_ok [of "js ''m'' @ rest" _ seed] by (auto simp add: d derivePath_js_eq_ts)
  ultimately show ?thesis using d by (simp add: derivePath_js_eq_ts)
qed

lemma parse_m_0h: \<open>parsePath_ts (js (''m/0'' @ [CHR 0x27])) = Inr [0x80000000]\<close>
  by (simp add: parse_defs)

theorem root_marker_first_segment_witness:
  \<open>derivePath_ts zero_seed (js (''m44'/0'' @ [CHR 0x27]))
     = derivePath_ts zero_seed (js (''m/0'' @ [CHR 0x27]))
   \<and> (\<exists>ek. derivePath_ts zero_seed (js (''m44'/0'' @ [CHR 0x27])) = Inr ek)\<close>
proof -
  have a: "(0x2F :: code_unit) \<notin> set (js (''44'' @ [CHR 0x27]))" by (simp add: js_def)
  have b: "js (''/0'' @ [CHR 0x27]) = [] \<or> hd (js (''/0'' @ [CHR 0x27])) = 0x2F"
    by (simp add: js_def)
  have c: "js ''m'' @ js (''44'' @ [CHR 0x27]) @ js (''/0'' @ [CHR 0x27])
             = js (''m44'/0'' @ [CHR 0x27])"
      "js ''m'' @ js (''/0'' @ [CHR 0x27]) = js (''m/0'' @ [CHR 0x27])"
    by (simp_all add: js_def)
  from root_marker_first_segment [OF a b, of zero_seed] parse_m_0h show ?thesis
    unfolding c by blast
qed

lemma parse_m_2147483648: "parsePath_ts (js ''m/2147483648'') = Inr [0x80000000]"
  by (simp add: parse_defs)

lemma parse_m_0: "parsePath_ts (js ''m/0'') = Inr [0x80000000]"
  by (simp add: parse_defs)

section \<open>Indices wrap around\<close>

text \<open>
  Claim C10: for every segment that parses to a number \<open>n\<close>, the index is the unsigned
  32-bit value \<open>(n mod 2 ^ 32) OR 0x80000000\<close>; so \<open>m/2147483648\<close> parses to the same index
  \<open>0x80000000\<close> as \<open>m/0\<close>, and gives the same extended key for every seed.
\<close>


theorem index_wraps_modulo:
  "(parsePath_ts path = Inr indices \<and> k < length indices
      \<and> parseInt10 (replace_suffix (drop 1 (split path 0x2F) ! k)) = Fin n
    \<longrightarrow> indices ! k = word_of_int n OR 0x80000000
        \<and> uint (indices ! k) = (n mod 2 ^ 32) OR 0x80000000)
   \<and> parsePath_ts (js ''m/2147483648'') = Inr [0x80000000]
   \<and> parsePath_ts (js ''m/0'') = Inr [0x80000000]
   \<and> parsePath_js (js ''m/2147483648'') = parsePath_js (js ''m/0'')
   \<and> derivePath_ts seed (js ''m/2147483648'') = derivePath_ts seed (js ''m/0'')
   \<and> derivePath_js seed (js ''m/2147483648'') = derivePath_js seed (js ''m/0'')"
proof -
  have imp: "parsePath_ts path = Inr indices \<and> k < length indices
      \<and> parseInt10 (replace_suffix (drop 1 (split path 0x2F) ! k)) = Fin n
    \<longrightarrow> indices ! k = word_of_int n OR 0x80000000
        \<and> uint (indices ! k) = (n mod 2 ^ 32) OR 0x80000000"
  proof (intro impI, elim conjE)
    assume a: "parsePath_ts path = Inr indices" "k < length indices"
      "parseInt10 (replace_suffix (drop 1 (split path 0x2F) ! k)) = Fin n"
    from parsePath_ts_Inr(3) [OF a(1,2)]
    have "indices ! k = harden (parseInt10 (replace_suffix (drop 1 (split path 0x2F) ! k)))"
      by (rule segment_ts_Inr)
    then have h: "indices ! k = harden (Fin n)" using a(3) by simp
    then show "indices ! k = word_of_int n OR 0x80000000
        \<and> uint (indices ! k) = (n mod 2 ^ 32) OR 0x80000000"
      using uint_harden_Fin [of n] by (simp add: harden_def toInt32_def)
  qed
  have d: "derivePath_ts seed (js ''m/2147483648'') = derivePath_ts seed (js ''m/0'')"
    by (simp add: derivePath_ts_def parse_m_2147483648 parse_m_0)
  then have d': "derivePath_js seed (js ''m/2147483648'') = derivePath_js seed (js ''m/0'')"
    by (simp add: derivePath_js_eq_ts)
  have p: "parsePath_js (js ''m/2147483648'') = parsePath_js (js ''m/0'')"
    by (simp add: parsePath_js_eq_ts parse_m_2147483648 parse_m_0)
  from imp parse_m_2147483648 parse_m_0 p d d' show ?thesis by blast
qed

theorem index_wraps_modulo_witness:
  "parseInt10 (replace_suffix (js ''2147483648'')) = Fin 2147483648
   \<and> [0x80000000 :: u32] ! 0 = word_of_int 2147483648 OR 0x80000000
   \<and> uint ([0x80000000 :: u32] ! 0) = (2147483648 mod 2 ^ 32) OR 0x80000000"
proof -
  have s: "drop 1 (split (js ''m/2147483648'') 0x2F) ! 0 = js ''2147483648''"
    by (simp add: js_def)
  have p: "parseInt10 (replace_suffix (js ''2147483648'')) = Fin 2147483648"
    by (simp add: parse_defs)
  from index_wraps_modulo [of "js ''m/2147483648''" "[0x80000000]" 0 2147483648 zero_seed]
    parse_m_2147483648 s p
  show ?thesis by simp
qed

lemma parseInt10_NaN_iff:
  "parseInt10 s = NaN \<longleftrightarrow>
     (let S = dropWhile is_white_space s;
          S' = (if S \<noteq> [] \<and> (hd S = 0x2B \<or> hd S = 0x2D) then tl S else S)
      in S' = [] \<or> \<not> is_digit (hd S'))"
  by (simp add: parseInt10_def Let_def takeWhile_eq_Nil_iff split: option.splits)

lemma loop_ts_traced_result: "snd (derive_loop_ts_traced ek indices) = derive_loop_ts ek indices"
  by (induction indices arbitrary: ek)
    (simp_all add: derive_step_ts_def Let_def case_prod_beta split: sum.splits)

lemma derivePath_ts_traced_result: "snd (derivePath_ts_traced seed path) = derivePath_ts seed path"
  by (simp add: derivePath_ts_traced_def derivePath_ts_def Let_def case_prod_beta
      loop_ts_traced_result split: sum.splits)

lemma loop_js_traced_result: "snd (derive_loop_js_traced ek indices) = derive_loop_js ek indices"
  by (induction indices arbitrary: ek)
    (simp_all add: derive_step_js_def Let_def case_prod_beta split: sum.splits)

lemma derivePath_js_traced_result: "snd (derivePath_js_traced seed path) = derivePath_js seed path"
  by (simp add: derivePath_js_traced_def derivePath_js_def Let_def case_prod_beta
      loop_js_traced_result split: sum.splits)

lemma parse_m_abc:
  \<open>parsePath_ts (js (''m/abc'' @ [CHR 0x27])) = Inl (InvalidPathSegment (js (''abc'' @ [CHR 0x27])))\<close>
  by (simp add: parse_defs)

lemma parse_m_minus5: "parsePath_ts (js ''m/-5'') = Inr [0xFFFFFFFB]"
  by (simp add: parse_defs)

lemma parse_no_m: \<open>parsePath_ts (js (''44'/0'' @ [CHR 0x27])) = Inl InvalidPathFormat\<close>
  by (simp add: parse_defs)

section \<open>Segments that do not parse\<close>

text \<open>
  Claim C3, as stated, fails: the segment \<open>-5\<close> is not a non-negative base-10 integer,
  yet \<open>parseInt\<close> reads it as the number \<open>-5\<close>, the index becomes \<open>0xFFFFFFFB\<close> and the
  derivation succeeds.
\<close>

theorem segment_failure_counterexample:
  "js ''-5'' \<in> set (drop 1 (split (js ''m/-5'') 0x2F))
   \<and> \<not> spec_nonneg_integer (replace_suffix (js ''-5''))
   \<and> parseInt10 (replace_suffix (js ''-5'')) = Fin (- 5)
   \<and> parsePath_ts (js ''m/-5'') = Inr [0xFFFFFFFB]
   \<and> \<not> isl (derivePath_ts zero_seed (js ''m/-5''))
   \<and> \<not> isl (derivePath_js zero_seed (js ''m/-5''))"
proof -
  have "js ''-5'' \<in> set (drop 1 (split (js ''m/-5'') 0x2F))" by (simp add: js_def)
  moreover have "\<not> spec_nonneg_integer (replace_suffix (js ''-5''))"
    by (simp add: spec_nonneg_integer_def replace_suffix_def js_def is_digit_def)
  moreover have "parseInt10 (replace_suffix (js ''-5'')) = Fin (- 5)"
    by (simp add: parse_defs)
  moreover have "\<not> isl (derivePath_ts zero_seed (js ''m/-5''))"
    using derivePath_ts_ok [OF parse_m_minus5, of zero_seed] by auto
  ultimately show ?thesis using parse_m_minus5 by (simp add: derivePath_js_eq_ts)
qed

text \<open>
  Claim C3, amended: for every seed and every path that starts with \<open>m\<close>, if for some
  segment after the first \<open>parseInt\<close> returns \<open>NaN\<close> on the remainder left after removing
  one final \<open>'\<close> or \<open>h\<close> (by \<open>parseInt10_NaN_iff\<close>: after leading white space and an
  optional sign the remainder does not start with a decimal digit), then both files fail
  with \<open>InvalidPathSegment\<close> on such a segment. In particular \<open>m/abc'\<close> fails with
  \<open>InvalidPathSegment\<close>.
\<close>

theorem segment_failure:
  "(startsWith path (js ''m'') \<and> seg \<in> set (drop 1 (split path 0x2F))
      \<and> parseInt10 (replace_suffix seg) = NaN
    \<longrightarrow> (\<exists>s \<in> set (drop 1 (split path 0x2F)). parseInt10 (replace_suffix s) = NaN
           \<and> derivePath_ts seed path = Inl (InvalidPathSegment s)
           \<and> derivePath_js seed path = Inl (InvalidPathSegment s)))
   \<and> derivePath_ts seed (js (''m/abc'' @ [CHR 0x27]))
       = Inl (InvalidPathSegment (js (''abc'' @ [CHR 0x27])))
   \<and> derivePath_js seed (js (''m/abc'' @ [CHR 0x27]))
       = Inl (InvalidPathSegment (js (''abc'' @ [CHR 0x27])))"
proof -
  have imp: "startsWith path (js ''m'') \<and> seg \<in> set (drop 1 (split path 0x2F))
      \<and> parseInt10 (replace_suffix seg) = NaN
    \<longrightarrow> (\<exists>s \<in> set (drop 1 (split path 0x2F)). parseInt10 (replace_suffix s) = NaN
           \<and> derivePath_ts seed path = Inl (InvalidPathSegment s)
           \<and> derivePath_js seed path = Inl (InvalidPathSegment s))"
  proof (intro impI, elim conjE)
    assume a: "startsWith path (js ''m'')" "seg \<in> set (drop 1 (split path 0x2F))"
      "parseInt10 (replace_suffix seg) = NaN"
    have "\<exists>e. segment_ts seg = Inl e" using a(3) by (simp add: segment_ts_def isNaN_def)
    from map_throwing_fails [where f = segment_ts, OF a(2) this]
    obtain e s where s: "s \<in> set (drop 1 (split path 0x2F))" "segment_ts s = Inl e"
        "map_throwing segment_ts (drop 1 (split path 0x2F)) = Inl e" by blast
    from s(2) have e: "e = InvalidPathSegment s" "parseInt10 (replace_suffix s) = NaN"
      by (auto simp add: segment_ts_def isNaN_def Let_def split: if_splits)
    have "parsePath_ts path = Inl (InvalidPathSegment s)"
      using a(1) s(3) e(1) by (simp add: parsePath_ts_def)
    from derivePath_ts_err [OF this, of seed] s(1) e(2)
    show "\<exists>s \<in> set (drop 1 (split path 0x2F)). parseInt10 (replace_suffix s) = NaN
           \<and> derivePath_ts seed path = Inl (InvalidPathSegment s)
           \<and> derivePath_js seed path = Inl (InvalidPathSegment s)"
      by (auto simp add: derivePath_js_eq_ts)
  qed
  have x: "derivePath_ts seed (js (''m/abc'' @ [CHR 0x27]))
       = Inl (InvalidPathSegment (js (''abc'' @ [CHR 0x27])))"
    by (rule derivePath_ts_err [OF parse_m_abc])
  then have "derivePath_js seed (js (''m/abc'' @ [CHR 0x27]))
       = Inl (InvalidPathSegment (js (''abc'' @ [CHR 0x27])))"
    by (simp add: derivePath_js_eq_ts)
  with imp x show ?thesis by blast
qed

theorem segment_failure_witness:
  "startsWith (js ''m/x7'') (js ''m'') \<and> js ''x7'' \<in> set (drop 1 (split (js ''m/x7'') 0x2F))
   \<and> parseInt10 (replace_suffix (js ''x7'')) = NaN
   \<and> (\<exists>s \<in> set (drop 1 (split (js ''m/x7'') 0x2F)).
         derivePath_ts zero_seed (js ''m/x7'') = Inl (InvalidPathSegment s))"
proof -
  have a: "startsWith (js ''m/x7'') (js ''m'')" by (simp add: startsWith_def js_def)
  have b: "js ''x7'' \<in> set (drop 1 (split (js ''m/x7'') 0x2F))" by (simp add: js_def)
  have c: "parseInt10 (replace_suffix (js ''x7'')) = NaN" by (simp add: parse_defs)
  from segment_failure [of "js ''m/x7''" "js ''x7''" zero_seed] a b c show ?thesis by blast
qed

lemma derivePath_ts_traced_err:
  assumes "parsePath_ts path = Inl e"
  shows "derivePath_ts_traced seed path = ([HmacCall seed SEED_KEY, ParseCall path], Inl e)"
  using assms by (simp add: derivePath_ts_traced_def)

lemma derivePath_js_traced_err:
  assumes "parsePath_js path = Inl e"
  shows "derivePath_js_traced seed path = ([HmacCall seed ED25519_SEED, ParseCall path], Inl e)"
  using assms by (simp add: derivePath_js_traced_def)

section \<open>When a parse error is raised\<close>

text \<open>
  Claim C4, as stated, fails: on the path \<open>44'/0'\<close>, which has no root marker, the master
  HMAC is computed before the parser is called.
\<close>

theorem parse_error_counterexample:
  \<open>derivePath_ts_traced zero_seed (js (''44'/0'' @ [CHR 0x27]))
     = ([HmacCall zero_seed SEED_KEY, ParseCall (js (''44'/0'' @ [CHR 0x27]))],
        Inl InvalidPathFormat)\<close>
  by (rule derivePath_ts_traced_err [OF parse_no_m])

text \<open>
  Claim C4, amended: for every seed and every path that the parser rejects, both files
  compute exactly one HMAC, the master one, then call the parser, and fail with the
  parser's error (\<open>InvalidPathFormat\<close> or \<open>InvalidPathSegment\<close>): no child derivation is
  computed and no partial result is returned.
\<close>

theorem parse_error_after_master:
  assumes "parsePath_ts path = Inl e"
  shows "derivePath_ts_traced seed path = ([HmacCall seed SEED_KEY, ParseCall path], Inl e)
       \<and> derivePath_js_traced seed path = ([HmacCall seed ED25519_SEED, ParseCall path], Inl e)
       \<and> derivePath_ts seed path = Inl e \<and> derivePath_js seed path = Inl e
       \<and> (e = InvalidPathFormat \<or> (\<exists>s. e = InvalidPathSegment s))"
  using assms parsePath_ts_error_kind [OF assms]
  by (simp add: derivePath_ts_traced_err derivePath_js_traced_err parsePath_js_eq_ts
      derivePath_js_eq_ts derivePath_ts_err)

theorem parse_error_after_master_witness:
  \<open>derivePath_ts_traced zero_seed (js (''m/abc'' @ [CHR 0x27]))
     = ([HmacCall zero_seed SEED_KEY, ParseCall (js (''m/abc'' @ [CHR 0x27]))],
        Inl (InvalidPathSegment (js (''abc'' @ [CHR 0x27]))))\<close>
  using parse_error_after_master [OF parse_m_abc, of zero_seed] by (rule conjunct1)

section \<open>Evaluating the hash\<close>

lemma bit_wbits: "bit (wbits bs :: 'a::len word) n \<longleftrightarrow> n < LENGTH('a) \<and> n < length bs \<and> bs ! n"
  by (auto simp add: wbits_def bit_horner_sum_bit_word_iff)

lemma wbits_of_nat: "(wbits bs :: 'a::len word) = word_of_nat (horner_sum of_bool 2 bs)"
  by (rule bit_word_eqI) (auto simp add: bit_wbits bit_simps)

lemma wbits_xor:
  "length as = length bs \<Longrightarrow> (wbits as :: 'a::len word) XOR wbits bs = wbits (map2 bx as bs)"
  by (rule bit_word_eqI) (auto simp add: bit_wbits bit_simps bx_def)

lemma wbits_ch:
  "length as = length bs \<Longrightarrow> length bs = length cs \<Longrightarrow> length as = 64 \<Longrightarrow>
     Ch (wbits as) (wbits bs) (wbits cs) = wbits (map (\<lambda>(a, b, c). bch a b c) (zip as (zip bs cs)))"
  by (rule bit_word_eqI) (auto simp add: Ch_def bit_wbits bit_simps bch_def)

lemma wbits_maj:
  "length as = length bs \<Longrightarrow> length bs = length cs \<Longrightarrow>
     Maj (wbits as) (wbits bs) (wbits cs) = wbits (map (\<lambda>(a, b, c). bmaj a b c) (zip as (zip bs cs)))"
  by (rule bit_word_eqI) (auto simp add: Maj_def bit_wbits bit_simps bmaj_def)

lemma wbits_rotr:
  assumes "length bs = 64" and "n \<le> 64"
  shows "rotr64 n (wbits bs) = wbits (drop n bs @ take n bs)"
  using assms
  by (intro bit_word_eqI) (auto simp add: rotr64_def bit_wbits bit_simps nth_append)

lemma wbits_shr:
  assumes "length bs = 64" and "n \<le> 64"
  shows "drop_bit n (wbits bs :: u64) = wbits (drop n bs @ replicate n False)"
  using assms
  by (intro bit_word_eqI) (auto simp add: bit_wbits bit_simps nth_append)

lemma take_bit_addc:
  "length as = length bs \<Longrightarrow>
     take_bit (length as)
       (horner_sum of_bool 2 as + horner_sum of_bool 2 bs + of_bool c :: nat)
     = horner_sum of_bool 2 (addc c as bs)"
proof (induction as bs arbitrary: c rule: list_induct2)
  case Nil
  then show ?case by simp
next
  case (Cons a as b bs)
  let ?A = "horner_sum of_bool 2 as :: nat" and ?B = "horner_sum of_bool 2 bs :: nat"
  have e: "(of_bool a + 2 * ?A) + (of_bool b + 2 * ?B) + of_bool c
      = of_bool (bx (bx a b) c) + 2 * (?A + ?B + of_bool (bmaj a b c))"
    by (cases a; cases b; cases c) (simp_all add: bx_def bmaj_def)
  have h: "horner_sum of_bool 2 (a # as) = of_bool a + 2 * ?A"
    "horner_sum of_bool 2 (b # bs) = of_bool b + 2 * ?B" by simp_all
  have t: "take_bit (Suc k) (of_bool s + 2 * m :: nat) = of_bool s + 2 * take_bit k m" for s k m
    by (cases s) (simp_all add: take_bit_Suc)
  have "take_bit (length (a # as))
          (horner_sum of_bool 2 (a # as) + horner_sum of_bool 2 (b # bs) + of_bool c :: nat)
      = take_bit (Suc (length as)) (of_bool (bx (bx a b) c)
          + 2 * (?A + ?B + of_bool (bmaj a b c)))"
    by (simp only: h e list.size(4)) simp
  also have "\<dots> = of_bool (bx (bx a b) c) + 2 * take_bit (length as) (?A + ?B + of_bool (bmaj a b c))"
    by (rule t)
  also have "\<dots> = horner_sum of_bool 2 (addc c (a # as) (b # bs))"
    using Cons.IH [of "bmaj a b c"] by simp
  finally show ?case .
qed

lemma wbits_add:
  assumes "length as = 64" and "length bs = 64"
  shows "(wbits as :: u64) + wbits bs = wbits (addc False as bs)"
proof -
  let ?A = "horner_sum of_bool 2 as :: nat" and ?B = "horner_sum of_bool 2 bs :: nat"
  have h: "horner_sum of_bool 2 (addc False as bs) = take_bit 64 (?A + ?B)"
    using take_bit_addc [of as bs False] assms by simp
  have "(word_of_nat (?A + ?B) :: u64) = word_of_nat (horner_sum of_bool 2 (addc False as bs))"
    unfolding word_of_nat_eq_iff h by simp
  then show ?thesis by (simp add: wbits_of_nat)
qed

lemma wbits_numeral: "(numeral n :: 'a::len word) = wbits (num_bits n)"
proof -
  have "horner_sum of_bool 2 (num_bits n) = (numeral n :: nat)"
    by (induction n) (simp_all add: numeral.simps)
  then show ?thesis by (simp add: wbits_of_nat)
qed

lemma wbits_pad: "length us = LENGTH('a) \<Longrightarrow> (wbits (pad_to us bs) :: 'a::len word) = wbits bs"
proof (rule bit_word_eqI)
  fix n assume l: "length us = LENGTH('a)" and n: "n < LENGTH('a)"
  have "\<And>n. n < length us \<Longrightarrow> n < length (pad_to us bs) \<and> (pad_to us bs ! n \<longleftrightarrow> n < length bs \<and> bs ! n)"
  proof (induction us bs rule: pad_to.induct)
    case (1 bs) then show ?case by simp
  next
    case (2 u us) then show ?case by (cases n) (auto simp add: nth_Cons split: nat.splits)
  next
    case (3 u us b bs) then show ?case by (auto simp add: nth_Cons split: nat.splits)
  qed
  then show "bit (wbits (pad_to us bs) :: 'a word) n = bit (wbits bs :: 'a word) n"
    using l n by (auto simp add: bit_wbits)
qed


lemma be_word_snoc: "be_word (ys @ [y]) = push_bit 8 (be_word ys) OR ucast y"
  by (simp add: be_word_def)

lemma be_word_wbits:
  "\<forall>l \<in> set ls. length l = 8 \<Longrightarrow> length ls \<le> 8 \<Longrightarrow>
     be_word (map wbits ls) = wbits (concat (rev ls))"
proof (induction ls rule: rev_induct)
  case Nil
  then show ?case by (simp add: be_word_def wbits_def)
next
  case (snoc l ls)
  have l: "length l = 8" and c: "length (concat (rev ls)) \<le> 56"
  proof -
    show "length l = 8" using snoc.prems by simp
    have "length (concat (rev ls)) = 8 * length ls"
      using snoc.prems(1) by (induction ls) (simp_all add: length_concat)
    then show "length (concat (rev ls)) \<le> 56" using snoc.prems(2) by simp
  qed
  have "push_bit 8 (wbits (concat (rev ls)) :: u64) OR ucast (wbits l :: byte) = wbits (l @ concat (rev ls))"
    using l c by (intro bit_word_eqI) (auto simp add: bit_wbits bit_simps nth_append)
  then show ?case using snoc by (simp add: be_word_snoc)
qed

lemma ucast_drop_wbits:
  "length bs = 64 \<Longrightarrow> k + 8 \<le> 64 \<Longrightarrow>
     (ucast (drop_bit k (wbits bs :: u64)) :: byte) = wbits (take 8 (drop k bs))"
  by (intro bit_word_eqI) (auto simp add: bit_wbits bit_simps)

lemma rotr64_1_bits:
  "rotr64 1 (wbits [b0, b1, b2, b3, b4, b5, b6, b7, b8, b9, b10, b11, b12, b13, b14, b15,
          b16, b17, b18, b19, b20, b21, b22, b23, b24, b25, b26, b27, b28, b29, b30, b31,
          b32, b33, b34, b35, b36, b37, b38, b39, b40, b41, b42, b43, b44, b45, b46, b47,
          b48, b49, b50, b51, b52, b53, b54, b55, b56, b57, b58, b59, b60, b61, b62, b63])
     = wbits [b1, b2, b3, b4, b5, b6, b7, b8, b9, b10, b11, b12, b13, b14, b15, b16,
       b17, b18, b19, b20, b21, b22, b23, b24, b25, b26, b27, b28, b29, b30, b31, b32,
       b33, b34, b35, b36, b37, b38, b39, b40, b41, b42, b43, b44, b45, b46, b47, b48,
       b49, b50, b51, b52, b53, b54, b55, b56, b57, b58, b59, b60, b61, b62, b63, b0]"
  by (simp add: wbits_rotr)

lemma rotr64_8_bits:
  "rotr64 8 (wbits [b0, b1, b2, b3, b4, b5, b6, b7, b8, b9, b10, b11, b12, b13, b14, b15,
          b16, b17, b18, b19, b20, b21, b22, b23, b24, b25, b26, b27, b28, b29, b30, b31,
          b32, b33, b34, b35, b36, b37, b38, b39, b40, b41, b42, b43, b44, b45, b46, b47,
          b48, b49, b50, b51, b52, b53, b54, b55, b56, b57, b58, b59, b60, b61, b62, b63])
     = wbits [b8, b9, b10, b11, b12, b13, b14, b15, b16, b17, b18, b19, b20, b21, b22, b23,
       b24, b25, b26, b27, b28, b29, b30, b31, b32, b33, b34, b35, b36, b37, b38, b39,
       b40, b41, b42, b43, b44, b45, b46, b47, b48, b49, b50, b51, b52, b53, b54, b55,
       b56, b57, b58, b59, b60, b61, b62, b63, b0, b1, b2, b3, b4, b5, b6, b7]"
  by (simp add: wbits_rotr)

lemma rotr64_14_bits:
  "rotr64 14 (wbits [b0, b1, b2, b3, b4, b5, b6, b7, b8, b9, b10, b11, b12, b13, b14, b15,
          b16, b17, b18, b19, b20, b21, b22, b23, b24, b25, b26, b27, b28, b29, b30, b31,
          b32, b33, b34, b35, b36, b37, b38, b39, b40, b41, b42, b43, b44, b45, b46, b47,
          b48, b49, b50, b51, b52, b53, b54, b55, b56, b57, b58, b59, b60, b61, b62, b63])
     = wbits [b14, b15, b16, b17, b18, b19, b20, b21, b22, b23, b24, b25, b26, b27, b28, b29,
       b30, b31, b32, b33, b34, b35, b36, b37, b38, b39, b40, b41, b42, b43, b44, b45,
       b46, b47, b48, b49, b50, b51, b52, b53, b54, b55, b56, b57, b58, b59, b60, b61,
       b62, b63, b0, b1, b2, b3, b4, b5, b6, b7, b8, b9, b10, b11, b12, b13]"
  by (simp add: wbits_rotr)

lemma rotr64_18_bits:
  "rotr64 18 (wbits [b0, b1, b2, b3, b4, b5, b6, b7, b8, b9, b10, b11, b12, b13, b14, b15,
          b16, b17, b18, b19, b20, b21, b22, b23, b24, b25, b26, b27, b28, b29, b30, b31,
          b32, b33, b34, b35, b36, b37, b38, b39, b40, b41, b42, b43, b44, b45, b46, b47,
          b48, b49, b50, b51, b52, b53, b54, b55, b56, b57, b58, b59, b60, b61, b62, b63])
     = wbits [b18, b19, b20, b21, b22, b23, b24, b25, b26, b27, b28, b29, b30, b31, b32, b33,
       b34, b35, b36, b37, b38, b39, b40, b41, b42, b43, b44, b45, b46, b47, b48, b49,
       b50, b51, b52, b53, b54, b55, b56, b57, b58, b59, b60, b61, b62, b63, b0, b1,
       b2, b3, b4, b5, b6, b7, b8, b9, b10, b11, b12, b13, b14, b15, b16, b17]"
  by (simp add: wbits_rotr)

lemma rotr64_19_bits:
  "rotr64 19 (wbits [b0, b1, b2, b3, b4, b5, b6, b7, b8, b9, b10, b11, b12, b13, b14, b15,
          b16, b17, b18, b19, b20, b21, b22, b23, b24, b25, b26, b27, b28, b29, b30, b31,
          b32, b33, b34, b35, b36, b37, b38, b39, b40, b41, b42, b43, b44, b45, b46, b47,
          b48, b49, b50, b51, b52, b53, b54, b55, b56, b57, b58, b59, b60, b61, b62, b63])
     = wbits [b19, b20, b21, b22, b23, b24, b25, b26, b27, b28, b29, b30, b31, b32, b33, b34,
       b35, b36, b37, b38, b39, b40, b41, b42, b43, b44, b45, b46, b47, b48, b49, b50,
       b51, b52, b53, b54, b55, b56, b57, b58, b59, b60, b61, b62, b63, b0, b1, b2,
       b3, b4, b5, b6, b7, b8, b9, b10, b11, b12, b13, b14, b15, b16, b17, b18]"
  by (simp add: wbits_rotr)

lemma rotr64_28_bits:
  "rotr64 28 (wbits [b0, b1, b2, b3, b4, b5, b6, b7, b8, b9, b10, b11, b12, b13, b14, b15,
          b16, b17, b18, b19, b20, b21, b22, b23, b24, b25, b26, b27, b28, b29, b30, b31,
          b32, b33, b34, b35, b36, b37, b38, b39, b40, b41, b42, b43, b44, b45, b46, b47,
          b48, b49, b50, b51, b52, b53, b54, b55, b56, b57, b58, b59, b60, b61, b62, b63])
     = wbits [b28, b29, b30, b31, b32, b33, b34, b35, b36, b37, b38, b39, b40, b41, b42, b43,
       b44, b45, b46, b47, b48, b49, b50, b51, b52, b53, b54, b55, b56, b57, b58, b59,
       b60, b61, b62, b63, b0, b1, b2, b3, b4, b5, b6, b7, b8, b9, b10, b11,
       b12, b13, b14, b15, b16, b17, b18, b19, b20, b21, b22, b23, b24, b25, b26, b27]"
  by (simp add: wbits_rotr)

lemma rotr64_34_bits:
  "rotr64 34 (wbits [b0, b1, b2, b3, b4, b5, b6, b7, b8, b9, b10, b11, b12, b13, b14, b15,
          b16, b17, b18, b19, b20, b21, b22, b23, b24, b25, b26, b27, b28, b29, b30, b31,
          b32, b33, b34, b35, b36, b37, b38, b39, b40, b41, b42, b43, b44, b45, b46, b47,
          b48, b49, b50, b51, b52, b53, b54, b55, b56, b57, b58, b59, b60, b61, b62, b63])
     = wbits [b34, b35, b36, b37, b38, b39, b40, b41, b42, b43, b44, b45, b46, b47, b48, b49,
       b50, b51, b52, b53, b54, b55, b56, b57, b58, b59, b60, b61, b62, b63, b0, b1,
       b2, b3, b4, b5, b6, b7, b8, b9, b10, b11, b12, b13, b14, b15, b16, b17,
       b18, b19, b20, b21, b22, b23, b24, b25, b26, b27, b28, b29, b30, b31, b32, b33]"
  by (simp add: wbits_rotr)

lemma rotr64_39_bits:
  "rotr64 39 (wbits [b0, b1, b2, b3, b4, b5, b6, b7, b8, b9, b10, b11, b12, b13, b14, b15,
          b16, b17, b18, b19, b20, b21, b22, b23, b24, b25, b26, b27, b28, b29, b30, b31,
          b32, b33, b34, b35, b36, b37, b38, b39, b40, b41, b42, b43, b44, b45, b46, b47,
          b48, b49, b50, b51, b52, b53, b54, b55, b56, b57, b58, b59, b60, b61, b62, b63])
     = wbits [b39, b40, b41, b42, b43, b44, b45, b46, b47, b48, b49, b50, b51, b52, b53, b54,
       b55, b56, b57, b58, b59, b60, b61, b62, b63, b0, b1, b2, b3, b4, b5, b6,
       b7, b8, b9, b10, b11, b12, b13, b14, b15, b16, b17, b18, b19, b20, b21, b22,
       b23, b24, b25, b26, b27, b28, b29, b30, b31, b32, b33, b34, b35, b36, b37, b38]"
  by (simp add: wbits_rotr)

lemma rotr64_41_bits:
  "rotr64 41 (wbits [b0, b1, b2, b3, b4, b5, b6, b7, b8, b9, b10, b11, b12, b13, b14, b15,
          b16, b17, b18, b19, b20, b21, b22, b23, b24, b25, b26, b27, b28, b29, b30, b31,
          b32, b33, b34, b35, b36, b37, b38, b39, b40, b41, b42, b43, b44, b45, b46, b47,
          b48, b49, b50, b51, b52, b53, b54, b55, b56, b57, b58, b59, b60, b61, b62, b63])
     = wbits [b41, b42, b43, b44, b45, b46, b47, b48, b49, b50, b51, b52, b53, b54, b55, b56,
       b57, b58, b59, b60, b61, b62, b63, b0, b1, b2, b3, b4, b5, b6, b7, b8,
       b9, b10, b11, b12, b13, b14, b15, b16, b17, b18, b19, b20, b21, b22, b23, b24,
       b25, b26, b27, b28, b29, b30, b31, b32, b33, b34, b35, b36, b37, b38, b39, b40]"
  by (simp add: wbits_rotr)

lemma rotr64_61_bits:
  "rotr64 61 (wbits [b0, b1, b2, b3, b4, b5, b6, b7, b8, b9, b10, b11, b12, b13, b14, b15,
          b16, b17, b18, b19, b20, b21, b22, b23, b24, b25, b26, b27, b28, b29, b30, b31,
          b32, b33, b34, b35, b36, b37, b38, b39, b40, b41, b42, b43, b44, b45, b46, b47,
          b48, b49, b50, b51, b52, b53, b54, b55, b56, b57, b58, b59, b60, b61, b62, b63])
     = wbits [b61, b62, b63, b0, b1, b2, b3, b4, b5, b6, b7, b8, b9, b10, b11, b12,
       b13, b14, b15, b16, b17, b18, b19, b20, b21, b22, b23, b24, b25, b26, b27, b28,
       b29, b30, b31, b32, b33, b34, b35, b36, b37, b38, b39, b40, b41, b42, b43, b44,
       b45, b46, b47, b48, b49, b50, b51, b52, b53, b54, b55, b56, b57, b58, b59, b60]"
  by (simp add: wbits_rotr)

lemma shr64_6_bits:
  "drop_bit 6 (wbits [b0, b1, b2, b3, b4, b5, b6, b7, b8, b9, b10, b11, b12, b13, b14, b15,
          b16, b17, b18, b19, b20, b21, b22, b23, b24, b25, b26, b27, b28, b29, b30, b31,
          b32, b33, b34, b35, b36, b37, b38, b39, b40, b41, b42, b43, b44, b45, b46, b47,
          b48, b49, b50, b51, b52, b53, b54, b55, b56, b57, b58, b59, b60, b61, b62, b63] :: u64)
     = wbits [b6, b7, b8, b9, b10, b11, b12, b13, b14, b15, b16, b17, b18, b19, b20, b21,
       b22, b23, b24, b25, b26, b27, b28, b29, b30, b31, b32, b33, b34, b35, b36, b37,
       b38, b39, b40, b41, b42, b43, b44, b45, b46, b47, b48, b49, b50, b51, b52, b53,
       b54, b55, b56, b57, b58, b59, b60, b61, b62, b63, False, False, False, False, False, False]"
  by (simp add: wbits_shr numeral_eq_Suc)

lemma shr64_7_bits:
  "drop_bit 7 (wbits [b0, b1, b2, b3, b4, b5, b6, b7, b8, b9, b10, b11, b12, b13, b14, b15,
          b16, b17, b18, b19, b20, b21, b22, b23, b24, b25, b26, b27, b28, b29, b30, b31,
          b32, b33, b34, b35, b36, b37, b38, b39, b40, b41, b42, b43, b44, b45, b46, b47,
          b48, b49, b50, b51, b52, b53, b54, b55, b56, b57, b58, b59, b60, b61, b62, b63] :: u64)
     = wbits [b7, b8, b9, b10, b11, b12, b13, b14, b15, b16, b17, b18, b19, b20, b21, b22,
       b23, b24, b25, b26, b27, b28, b29, b30, b31, b32, b33, b34, b35, b36, b37, b38,
       b39, b40, b41, b42, b43, b44, b45, b46, b47, b48, b49, b50, b51, b52, b53, b54,
       b55, b56, b57, b58, b59, b60, b61, b62, b63, False, False, False, False, False, False, False]"
  by (simp add: wbits_shr numeral_eq_Suc)

lemma xor64_bits:
  "(wbits [a0, a1, a2, a3, a4, a5, a6, a7, a8, a9, a10, a11, a12, a13, a14, a15,
       a16, a17, a18, a19, a20, a21, a22, a23, a24, a25, a26, a27, a28, a29, a30, a31,
       a32, a33, a34, a35, a36, a37, a38, a39, a40, a41, a42, a43, a44, a45, a46, a47,
       a48, a49, a50, a51, a52, a53, a54, a55, a56, a57, a58, a59, a60, a61, a62, a63] :: u64)
     XOR wbits [b0, b1, b2, b3, b4, b5, b6, b7, b8, b9, b10, b11, b12, b13, b14, b15,
       b16, b17, b18, b19, b20, b21, b22, b23, b24, b25, b26, b27, b28, b29, b30, b31,
       b32, b33, b34, b35, b36, b37, b38, b39, b40, b41, b42, b43, b44, b45, b46, b47,
       b48, b49, b50, b51, b52, b53, b54, b55, b56, b57, b58, b59, b60, b61, b62, b63]
     = wbits [bx a0 b0, bx a1 b1, bx a2 b2, bx a3 b3, bx a4 b4, bx a5 b5, bx a6 b6, bx a7 b7,
       bx a8 b8, bx a9 b9, bx a10 b10, bx a11 b11, bx a12 b12, bx a13 b13, bx a14 b14, bx a15 b15,
       bx a16 b16, bx a17 b17, bx a18 b18, bx a19 b19, bx a20 b20, bx a21 b21, bx a22 b22, bx a23 b23,
       bx a24 b24, bx a25 b25, bx a26 b26, bx a27 b27, bx a28 b28, bx a29 b29, bx a30 b30, bx a31 b31,
       bx a32 b32, bx a33 b33, bx a34 b34, bx a35 b35, bx a36 b36, bx a37 b37, bx a38 b38, bx a39 b39,
       bx a40 b40, bx a41 b41, bx a42 b42, bx a43 b43, bx a44 b44, bx a45 b45, bx a46 b46, bx a47 b47,
       bx a48 b48, bx a49 b49, bx a50 b50, bx a51 b51, bx a52 b52, bx a53 b53, bx a54 b54, bx a55 b55,
       bx a56 b56, bx a57 b57, bx a58 b58, bx a59 b59, bx a60 b60, bx a61 b61, bx a62 b62, bx a63 b63]"
  by (simp add: wbits_xor)

lemma add64_bits:
  "(wbits [a0, a1, a2, a3, a4, a5, a6, a7, a8, a9, a10, a11, a12, a13, a14, a15,
       a16, a17, a18, a19, a20, a21, a22, a23, a24, a25, a26, a27, a28, a29, a30, a31,
       a32, a33, a34, a35, a36, a37, a38, a39, a40, a41, a42, a43, a44, a45, a46, a47,
       a48, a49, a50, a51, a52, a53, a54, a55, a56, a57, a58, a59, a60, a61, a62, a63] :: u64)
     + wbits [b0, b1, b2, b3, b4, b5, b6, b7, b8, b9, b10, b11, b12, b13, b14, b15,
       b16, b17, b18, b19, b20, b21, b22, b23, b24, b25, b26, b27, b28, b29, b30, b31,
       b32, b33, b34, b35, b36, b37, b38, b39, b40, b41, b42, b43, b44, b45, b46, b47,
       b48, b49, b50, b51, b52, b53, b54, b55, b56, b57, b58, b59, b60, b61, b62, b63]
     = wbits (addc False [a0, a1, a2, a3, a4, a5, a6, a7, a8, a9, a10, a11, a12, a13, a14, a15,
         a16, a17, a18, a19, a20, a21, a22, a23, a24, a25, a26, a27, a28, a29, a30, a31,
         a32, a33, a34, a35, a36, a37, a38, a39, a40, a41, a42, a43, a44, a45, a46, a47,
         a48, a49, a50, a51, a52, a53, a54, a55, a56, a57, a58, a59, a60, a61, a62, a63]
           [b0, b1, b2, b3, b4, b5, b6, b7, b8, b9, b10, b11, b12, b13, b14, b15,
         b16, b17, b18, b19, b20, b21, b22, b23, b24, b25, b26, b27, b28, b29, b30, b31,
         b32, b33, b34, b35, b36, b37, b38, b39, b40, b41, b42, b43, b44, b45, b46, b47,
         b48, b49, b50, b51, b52, b53, b54, b55, b56, b57, b58, b59, b60, b61, b62, b63])"
  by (simp add: wbits_add)

lemma Ch_bits:
  "Ch (wbits [a0, a1, a2, a3, a4, a5, a6, a7, a8, a9, a10, a11, a12, a13, a14, a15,
       a16, a17, a18, a19, a20, a21, a22, a23, a24, a25, a26, a27, a28, a29, a30, a31,
       a32, a33, a34, a35, a36, a37, a38, a39, a40, a41, a42, a43, a44, a45, a46, a47,
       a48, a49, a50, a51, a52, a53, a54, a55, a56, a57, a58, a59, a60, a61, a62, a63])
     (wbits [b0, b1, b2, b3, b4, b5, b6, b7, b8, b9, b10, b11, b12, b13, b14, b15,
       b16, b17, b18, b19, b20, b21, b22, b23, b24, b25, b26, b27, b28, b29, b30, b31,
       b32, b33, b34, b35, b36, b37, b38, b39, b40, b41, b42, b43, b44, b45, b46, b47,
       b48, b49, b50, b51, b52, b53, b54, b55, b56, b57, b58, b59, b60, b61, b62, b63])
     (wbits [c0, c1, c2, c3, c4, c5, c6, c7, c8, c9, c10, c11, c12, c13, c14, c15,
       c16, c17, c18, c19, c20, c21, c22, c23, c24, c25, c26, c27, c28, c29, c30, c31,
       c32, c33, c34, c35, c36, c37, c38, c39, c40, c41, c42, c43, c44, c45, c46, c47,
       c48, c49, c50, c51, c52, c53, c54, c55, c56, c57, c58, c59, c60, c61, c62, c63])
     = wbits [bch a0 b0 c0, bch a1 b1 c1, bch a2 b2 c2, bch a3 b3 c3, bch a4 b4 c4, bch a5 b5 c5,
       bch a6 b6 c6, bch a7 b7 c7, bch a8 b8 c8, bch a9 b9 c9, bch a10 b10 c10, bch a11 b11 c11,
       bch a12 b12 c12, bch a13 b13 c13, bch a14 b14 c14, bch a15 b15 c15, bch a16 b16 c16, bch a17 b17 c17,
       bch a18 b18 c18, bch a19 b19 c19, bch a20 b20 c20, bch a21 b21 c21, bch a22 b22 c22, bch a23 b23 c23,
       bch a24 b24 c24, bch a25 b25 c25, bch a26 b26 c26, bch a27 b27 c27, bch a28 b28 c28, bch a29 b29 c29,
       bch a30 b30 c30, bch a31 b31 c31, bch a32 b32 c32, bch a33 b33 c33, bch a34 b34 c34, bch a35 b35 c35,
       bch a36 b36 c36, bch a37 b37 c37, bch a38 b38 c38, bch a39 b39 c39, bch a40 b40 c40, bch a41 b41 c41,
       bch a42 b42 c42, bch a43 b43 c43, bch a44 b44 c44, bch a45 b45 c45, bch a46 b46 c46, bch a47 b47 c47,
       bch a48 b48 c48, bch a49 b49 c49, bch a50 b50 c50, bch a51 b51 c51, bch a52 b52 c52, bch a53 b53 c53,
       bch a54 b54 c54, bch a55 b55 c55, bch a56 b56 c56, bch a57 b57 c57, bch a58 b58 c58, bch a59 b59 c59,
       bch a60 b60 c60, bch a61 b61 c61, bch a62 b62 c62, bch a63 b63 c63]"
  by (simp add: wbits_ch)

lemma Maj_bits:
  "Maj (wbits [a0, a1, a2, a3, a4, a5, a6, a7, a8, a9, a10, a11, a12, a13, a14, a15,
       a16, a17, a18, a19, a20, a21, a22, a23, a24, a25, a26, a27, a28, a29, a30, a31,
       a32, a33, a34, a35, a36, a37, a38, a39, a40, a41, a42, a43, a44, a45, a46, a47,
       a48, a49, a50, a51, a52, a53, a54, a55, a56, a57, a58, a59, a60, a61, a62, a63])
     (wbits [b0, b1, b2, b3, b4, b5, b6, b7, b8, b9, b10, b11, b12, b13, b14, b15,
       b16, b17, b18, b19, b20, b21, b22, b23, b24, b25, b26, b27, b28, b29, b30, b31,
       b32, b33, b34, b35, b36, b37, b38, b39, b40, b41, b42, b43, b44, b45, b46, b47,
       b48, b49, b50, b51, b52, b53, b54, b55, b56, b57, b58, b59, b60, b61, b62, b63])
     (wbits [c0, c1, c2, c3, c4, c5, c6, c7, c8, c9, c10, c11, c12, c13, c14, c15,
       c16, c17, c18, c19, c20, c21, c22, c23, c24, c25, c26, c27, c28, c29, c30, c31,
       c32, c33, c34, c35, c36, c37, c38, c39, c40, c41, c42, c43, c44, c45, c46, c47,
       c48, c49, c50, c51, c52, c53, c54, c55, c56, c57, c58, c59, c60, c61, c62, c63])
     = wbits [bmaj a0 b0 c0, bmaj a1 b1 c1, bmaj a2 b2 c2, bmaj a3 b3 c3, bmaj a4 b4 c4, bmaj a5 b5 c5,
       bmaj a6 b6 c6, bmaj a7 b7 c7, bmaj a8 b8 c8, bmaj a9 b9 c9, bmaj a10 b10 c10, bmaj a11 b11 c11,
       bmaj a12 b12 c12, bmaj a13 b13 c13, bmaj a14 b14 c14, bmaj a15 b15 c15, bmaj a16 b16 c16, bmaj a17 b17 c17,
       bmaj a18 b18 c18, bmaj a19 b19 c19, bmaj a20 b20 c20, bmaj a21 b21 c21, bmaj a22 b22 c22, bmaj a23 b23 c23,
       bmaj a24 b24 c24, bmaj a25 b25 c25, bmaj a26 b26 c26, bmaj a27 b27 c27, bmaj a28 b28 c28, bmaj a29 b29 c29,
       bmaj a30 b30 c30, bmaj a31 b31 c31, bmaj a32 b32 c32, bmaj a33 b33 c33, bmaj a34 b34 c34, bmaj a35 b35 c35,
       bmaj a36 b36 c36, bmaj a37 b37 c37, bmaj a38 b38 c38, bmaj a39 b39 c39, bmaj a40 b40 c40, bmaj a41 b41 c41,
       bmaj a42 b42 c42, bmaj a43 b43 c43, bmaj a44 b44 c44, bmaj a45 b45 c45, bmaj a46 b46 c46, bmaj a47 b47 c47,
       bmaj a48 b48 c48, bmaj a49 b49 c49, bmaj a50 b50 c50, bmaj a51 b51 c51, bmaj a52 b52 c52, bmaj a53 b53 c53,
       bmaj a54 b54 c54, bmaj a55 b55 c55, bmaj a56 b56 c56, bmaj a57 b57 c57, bmaj a58 b58 c58, bmaj a59 b59 c59,
       bmaj a60 b60 c60, bmaj a61 b61 c61, bmaj a62 b62 c62, bmaj a63 b63 c63]"
  by (simp add: wbits_maj)

lemma be_word_bits:
  "be_word
      [wbits [a0, a1, a2, a3, a4, a5, a6, a7],
       wbits [b0, b1, b2, b3, b4, b5, b6, b7],
       wbits [c0, c1, c2, c3, c4, c5, c6, c7],
       wbits [d0, d1, d2, d3, d4, d5, d6, d7],
       wbits [e0, e1, e2, e3, e4, e5, e6, e7],
       wbits [f0, f1, f2, f3, f4, f5, f6, f7],
       wbits [g0, g1, g2, g3, g4, g5, g6, g7],
       wbits [h0, h1, h2, h3, h4, h5, h6, h7] ]
     = wbits [h0, h1, h2, h3, h4, h5, h6, h7, g0, g1, g2, g3, g4, g5, g6, g7,
       f0, f1, f2, f3, f4, f5, f6, f7, e0, e1, e2, e3, e4, e5, e6, e7,
       d0, d1, d2, d3, d4, d5, d6, d7, c0, c1, c2, c3, c4, c5, c6, c7,
       b0, b1, b2, b3, b4, b5, b6, b7, a0, a1, a2, a3, a4, a5, a6, a7]"
  using be_word_wbits
    [of "[ [a0, a1, a2, a3, a4, a5, a6, a7],
          [b0, b1, b2, b3, b4, b5, b6, b7],
          [c0, c1, c2, c3, c4, c5, c6, c7],
          [d0, d1, d2, d3, d4, d5, d6, d7],
          [e0, e1, e2, e3, e4, e5, e6, e7],
          [f0, f1, f2, f3, f4, f5, f6, f7],
          [g0, g1, g2, g3, g4, g5, g6, g7],
          [h0, h1, h2, h3, h4, h5, h6, h7] ]"]
  by simp

lemma word_be_bits:
  "word_be (wbits [b0, b1, b2, b3, b4, b5, b6, b7, b8, b9, b10, b11, b12, b13, b14, b15,
          b16, b17, b18, b19, b20, b21, b22, b23, b24, b25, b26, b27, b28, b29, b30, b31,
          b32, b33, b34, b35, b36, b37, b38, b39, b40, b41, b42, b43, b44, b45, b46, b47,
          b48, b49, b50, b51, b52, b53, b54, b55, b56, b57, b58, b59, b60, b61, b62, b63])
     = [wbits [b56, b57, b58, b59, b60, b61, b62, b63],
        wbits [b48, b49, b50, b51, b52, b53, b54, b55],
        wbits [b40, b41, b42, b43, b44, b45, b46, b47],
        wbits [b32, b33, b34, b35, b36, b37, b38, b39],
        wbits [b24, b25, b26, b27, b28, b29, b30, b31],
        wbits [b16, b17, b18, b19, b20, b21, b22, b23],
        wbits [b8, b9, b10, b11, b12, b13, b14, b15],
        wbits [b0, b1, b2, b3, b4, b5, b6, b7] ]"
  by (simp add: word_be_def ucast_drop_wbits ucast_drop_wbits [of _ 0, simplified])

lemma schedule_rev_numeral:
  "schedule_rev (numeral n)
      (w1 # w2 # w3 # w4 # w5 # w6 # w7 # w8
       # w9 # w10 # w11 # w12 # w13 # w14 # w15 # w16 # ws)
     = schedule_rev (pred_numeral n)
         ((ssig1 w2 + w7 + ssig0 w15 + w16)
          # w1 # w2 # w3 # w4 # w5 # w6 # w7 # w8
          # w9 # w10 # w11 # w12 # w13 # w14 # w15 # w16 # ws)"
  by (simp add: numeral_eq_Suc)

lemma be_words_bytes:
  "be_words (b0 # b1 # b2 # b3 # b4 # b5 # b6 # b7 # bs)
     = be_word [b0, b1, b2, b3, b4, b5, b6, b7] # be_words bs"
  by (subst be_words.simps) simp

lemma be_words_Nil: "be_words [] = []"
  by (subst be_words.simps) simp

lemma numeral_u64_bits:
  "(numeral n :: u64)
     = wbits (pad_to [(), (), (), (), (), (), (), (), (), (), (), (), (), (), (), (),
             (), (), (), (), (), (), (), (), (), (), (), (), (), (), (), (),
             (), (), (), (), (), (), (), (), (), (), (), (), (), (), (), (),
             (), (), (), (), (), (), (), (), (), (), (), (), (), (), (), ()]
          (num_bits n))"
  by (simp add: wbits_pad flip: wbits_numeral)

lemma numeral_byte_bits:
  "(numeral n :: byte) = wbits (pad_to [(), (), (), (), (), (), (), ()] (num_bits n))"
  by (simp add: wbits_pad flip: wbits_numeral)

lemma zero_byte_bits:
  "(0 :: byte) = wbits [False, False, False, False, False, False, False, False]"
  by (simp add: wbits_def)

lemma one_byte_bits:
  "(1 :: byte) = wbits [True, False, False, False, False, False, False, False]"
  by (simp add: wbits_def)

lemma bool_fun_simps:
  "bx True True = False" "bx True False = True" "bx False True = True" "bx False False = False"
  "bch True b c = b" "bch False b c = c"
  "bmaj True True c = True" "bmaj True False c = c" "bmaj False True c = c"
  "bmaj False False c = False"
  by (simp_all add: bx_def bch_def bmaj_def)

lemma addc_simps:
  "addc False (False # as) (False # bs) = False # addc False as bs"
  "addc False (False # as) (True # bs) = True # addc False as bs"
  "addc False (True # as) (False # bs) = True # addc False as bs"
  "addc False (True # as) (True # bs) = False # addc True as bs"
  "addc True (False # as) (False # bs) = True # addc False as bs"
  "addc True (False # as) (True # bs) = False # addc True as bs"
  "addc True (True # as) (False # bs) = False # addc True as bs"
  "addc True (True # as) (True # bs) = True # addc True as bs"
  "addc c [] [] = []"
  by (simp_all add: bx_def bmaj_def)

lemmas sha_eval =
  compress_def schedule_def schedule_rev_numeral schedule_rev.simps(1) pred_numeral_simps
  BitM.simps be_words_bytes be_words_Nil round512.simps add_state.simps state_bytes.simps
  K512_def init_state_def bsig0_def bsig1_def ssig0_def ssig1_def
  foldl.simps zip_Cons_Cons zip_Nil zip.simps(1) rev.simps append.simps concat.simps list.map Let_def
  numeral_u64_bits numeral_byte_bits zero_byte_bits one_byte_bits num_bits.simps pad_to.simps
  add64_bits addc_simps xor64_bits bool_fun_simps Ch_bits Maj_bits
  rotr64_1_bits rotr64_8_bits rotr64_14_bits rotr64_18_bits rotr64_19_bits rotr64_28_bits
  rotr64_34_bits rotr64_39_bits rotr64_41_bits rotr64_61_bits shr64_6_bits shr64_7_bits
  be_word_bits word_be_bits

lemma replicate_numeral: "replicate (numeral n) x = x # replicate (pred_numeral n) x"
  by (simp add: numeral_eq_Suc)

lemma chunks_numeral:
  "chunks (numeral n) k xs = take k xs # chunks (pred_numeral n) k (drop k xs)"
  by (simp add: numeral_eq_Suc)

lemma hmac_seed_key_inner:
  "sha512_digest
     [0x36, 0x37, 0x34, 0x35, 0x32, 0x33, 0x30, 0x31, 0x3E, 0x3F, 0x3C, 0x3D, 0x3A, 0x3B, 0x38, 0x39,
      0x36, 0x36, 0x36, 0x36, 0x36, 0x36, 0x36, 0x36, 0x36, 0x36, 0x36, 0x36, 0x36, 0x36, 0x36, 0x36,
      0x36, 0x36, 0x36, 0x36, 0x36, 0x36, 0x36, 0x36, 0x36, 0x36, 0x36, 0x36, 0x36, 0x36, 0x36, 0x36,
      0x36, 0x36, 0x36, 0x36, 0x36, 0x36, 0x36, 0x36, 0x36, 0x36, 0x36, 0x36, 0x36, 0x36, 0x36, 0x36,
      0x36, 0x36, 0x36, 0x36, 0x36, 0x36, 0x36, 0x36, 0x36, 0x36, 0x36, 0x36, 0x36, 0x36, 0x36, 0x36,
      0x36, 0x36, 0x36, 0x36, 0x36, 0x36, 0x36, 0x36, 0x36, 0x36, 0x36, 0x36, 0x36, 0x36, 0x36, 0x36,
      0x36, 0x36, 0x36, 0x36, 0x36, 0x36, 0x36, 0x36, 0x36, 0x36, 0x36, 0x36, 0x36, 0x36, 0x36, 0x36,
      0x36, 0x36, 0x36, 0x36, 0x36, 0x36, 0x36, 0x36, 0x36, 0x36, 0x36, 0x36, 0x36, 0x36, 0x36, 0x36,
      0x65, 0x64, 0x32, 0x35, 0x35, 0x31, 0x39, 0x20, 0x73, 0x65, 0x65, 0x64]
   = [0x97, 0x38, 0xE1, 0x93, 0xBD, 0x77, 0x79, 0x07, 0x30, 0xF0, 0x68, 0x24, 0x4A, 0xF6, 0x78, 0x7B,
      0xE2, 0x69, 0xB0, 0x97, 0xB8, 0xCB, 0x39, 0xAA, 0xB2, 0xC6, 0x1B, 0x82, 0x14, 0x86, 0x88, 0xF2,
      0x48, 0xB3, 0x08, 0xB8, 0x19, 0x94, 0x68, 0x95, 0xDA, 0x42, 0x23, 0xF4, 0x58, 0x77, 0xEA, 0x3E,
      0x60, 0xD6, 0x5C, 0x5C, 0x8F, 0x49, 0x13, 0x0C, 0xFD, 0x4C, 0x4F, 0x6C, 0x6D, 0x5D, 0x48, 0x7F]"
  apply (simp add: sha512_digest_def sha_pad_def len_be_def chunks_numeral replicate_numeral)
  apply (simp only: sha_eval)
  done

lemma hmac_seed_key_outer:
  "sha512_digest
     [0x5C, 0x5D, 0x5E, 0x5F, 0x58, 0x59, 0x5A, 0x5B, 0x54, 0x55, 0x56, 0x57, 0x50, 0x51, 0x52, 0x53,
      0x5C, 0x5C, 0x5C, 0x5C, 0x5C, 0x5C, 0x5C, 0x5C, 0x5C, 0x5C, 0x5C, 0x5C, 0x5C, 0x5C, 0x5C, 0x5C,
      0x5C, 0x5C, 0x5C, 0x5C, 0x5C, 0x5C, 0x5C, 0x5C, 0x5C, 0x5C, 0x5C, 0x5C, 0x5C, 0x5C, 0x5C, 0x5C,
      0x5C, 0x5C, 0x5C, 0x5C, 0x5C, 0x5C, 0x5C, 0x5C, 0x5C, 0x5C, 0x5C, 0x5C, 0x5C, 0x5C, 0x5C, 0x5C,
      0x5C, 0x5C, 0x5C, 0x5C, 0x5C, 0x5C, 0x5C, 0x5C, 0x5C, 0x5C, 0x5C, 0x5C, 0x5C, 0x5C, 0x5C, 0x5C,
      0x5C, 0x5C, 0x5C, 0x5C, 0x5C, 0x5C, 0x5C, 0x5C, 0x5C, 0x5C, 0x5C, 0x5C, 0x5C, 0x5C, 0x5C, 0x5C,
      0x5C, 0x5C, 0x5C, 0x5C, 0x5C, 0x5C, 0x5C, 0x5C, 0x5C, 0x5C, 0x5C, 0x5C, 0x5C, 0x5C, 0x5C, 0x5C,
      0x5C, 0x5C, 0x5C, 0x5C, 0x5C, 0x5C, 0x5C, 0x5C, 0x5C, 0x5C, 0x5C, 0x5C, 0x5C, 0x5C, 0x5C, 0x5C,
      0x97, 0x38, 0xE1, 0x93, 0xBD, 0x77, 0x79, 0x07, 0x30, 0xF0, 0x68, 0x24, 0x4A, 0xF6, 0x78, 0x7B,
      0xE2, 0x69, 0xB0, 0x97, 0xB8, 0xCB, 0x39, 0xAA, 0xB2, 0xC6, 0x1B, 0x82, 0x14, 0x86, 0x88, 0xF2,
      0x48, 0xB3, 0x08, 0xB8, 0x19, 0x94, 0x68, 0x95, 0xDA, 0x42, 0x23, 0xF4, 0x58, 0x77, 0xEA, 0x3E,
      0x60, 0xD6, 0x5C, 0x5C, 0x8F, 0x49, 0x13, 0x0C, 0xFD, 0x4C, 0x4F, 0x6C, 0x6D, 0x5D, 0x48, 0x7F]
   = [0x55, 0xF4, 0xBC, 0x2F, 0xB7, 0xBB, 0xF5, 0x37, 0x21, 0x2C, 0x7A, 0x8E, 0xC5, 0x09, 0x60, 0xCD,
      0xE0, 0x0B, 0x8A, 0xA6, 0xA5, 0xF1, 0xFD, 0x25, 0x5F, 0x15, 0xB1, 0xF6, 0x97, 0x6E, 0xAF, 0x6E,
      0x07, 0x2B, 0x14, 0x69, 0x2C, 0x00, 0x2A, 0x02, 0x8B, 0xEE, 0x5B, 0xD4, 0x49, 0x47, 0x67, 0x91,
      0x68, 0x6D, 0x4D, 0x60, 0x9A, 0x7C, 0x1B, 0x04, 0x3D, 0xF1, 0x40, 0x1B, 0x3F, 0xE4, 0x7B, 0xE0]"
  apply (simp add: sha512_digest_def sha_pad_def len_be_def chunks_numeral replicate_numeral)
  apply (simp only: sha_eval)
  done

lemma hmac_seed_key:
  "hmac sha512 tv1_seed SEED_KEY
   = [0x55, 0xF4, 0xBC, 0x2F, 0xB7, 0xBB, 0xF5, 0x37, 0x21, 0x2C, 0x7A, 0x8E, 0xC5, 0x09, 0x60, 0xCD,
      0xE0, 0x0B, 0x8A, 0xA6, 0xA5, 0xF1, 0xFD, 0x25, 0x5F, 0x15, 0xB1, 0xF6, 0x97, 0x6E, 0xAF, 0x6E,
      0x07, 0x2B, 0x14, 0x69, 0x2C, 0x00, 0x2A, 0x02, 0x8B, 0xEE, 0x5B, 0xD4, 0x49, 0x47, 0x67, 0x91,
      0x68, 0x6D, 0x4D, 0x60, 0x9A, 0x7C, 0x1B, 0x04, 0x3D, 0xF1, 0x40, 0x1B, 0x3F, 0xE4, 0x7B, 0xE0]"
  by (simp add: hmac_def sha512_def replicate_numeral tv1_seed_def SEED_KEY_def hmac_seed_key_inner hmac_seed_key_outer)

lemma hmac_key_seed_inner:
  "sha512_digest
     [0x53, 0x52, 0x04, 0x03, 0x03, 0x07, 0x0F, 0x16, 0x45, 0x53, 0x53, 0x52, 0x36, 0x36, 0x36, 0x36,
      0x36, 0x36, 0x36, 0x36, 0x36, 0x36, 0x36, 0x36, 0x36, 0x36, 0x36, 0x36, 0x36, 0x36, 0x36, 0x36,
      0x36, 0x36, 0x36, 0x36, 0x36, 0x36, 0x36, 0x36, 0x36, 0x36, 0x36, 0x36, 0x36, 0x36, 0x36, 0x36,
      0x36, 0x36, 0x36, 0x36, 0x36, 0x36, 0x36, 0x36, 0x36, 0x36, 0x36, 0x36, 0x36, 0x36, 0x36, 0x36,
      0x36, 0x36, 0x36, 0x36, 0x36, 0x36, 0x36, 0x36, 0x36, 0x36, 0x36, 0x36, 0x36, 0x36, 0x36, 0x36,
      0x36, 0x36, 0x36, 0x36, 0x36, 0x36, 0x36, 0x36, 0x36, 0x36, 0x36, 0x36, 0x36, 0x36, 0x36, 0x36,
      0x36, 0x36, 0x36, 0x36, 0x36, 0x36, 0x36, 0x36, 0x36, 0x36, 0x36, 0x36, 0x36, 0x36, 0x36, 0x36,
      0x36, 0x36, 0x36, 0x36, 0x36, 0x36, 0x36, 0x36, 0x36, 0x36, 0x36, 0x36, 0x36, 0x36, 0x36, 0x36,
      0x00, 0x01, 0x02, 0x03, 0x04, 0x05, 0x06, 0x07, 0x08, 0x09, 0x0A, 0x0B, 0x0C, 0x0D, 0x0E, 0x0F]
   = [0x6D, 0x41, 0x31, 0xBB, 0x02, 0xF1, 0xC0, 0x06, 0xF0, 0x17, 0x49, 0x19, 0x62, 0xA2, 0x93, 0xDA,
      0x64, 0xD1, 0xD5, 0x6A, 0xE9, 0x30, 0xE0, 0x38, 0x75, 0xDC, 0xCE, 0xE0, 0xEF, 0xEB, 0x7E, 0x33,
      0xF3, 0x67, 0x51, 0x14, 0xCC, 0xFE, 0x59, 0x7F, 0x6F, 0x9D, 0x92, 0x6D, 0xB5, 0x95, 0xCD, 0xE9,
      0xA0, 0x5A, 0xF7, 0xA4, 0x4C, 0x2C, 0xB9, 0x38, 0xD9, 0xD8, 0xBA, 0xEB, 0xB9, 0x96, 0x12, 0x37]"
  apply (simp add: sha512_digest_def sha_pad_def len_be_def chunks_numeral replicate_numeral)
  apply (simp only: sha_eval)
  done

lemma hmac_key_seed_outer:
  "sha512_digest
     [0x39, 0x38, 0x6E, 0x69, 0x69, 0x6D, 0x65, 0x7C, 0x2F, 0x39, 0x39, 0x38, 0x5C, 0x5C, 0x5C, 0x5C,
      0x5C, 0x5C, 0x5C, 0x5C, 0x5C, 0x5C, 0x5C, 0x5C, 0x5C, 0x5C, 0x5C, 0x5C, 0x5C, 0x5C, 0x5C, 0x5C,
      0x5C, 0x5C, 0x5C, 0x5C, 0x5C, 0x5C, 0x5C, 0x5C, 0x5C, 0x5C, 0x5C, 0x5C, 0x5C, 0x5C, 0x5C, 0x5C,
      0x5C, 0x5C, 0x5C, 0x5C, 0x5C, 0x5C, 0x5C, 0x5C, 0x5C, 0x5C, 0x5C, 0x5C, 0x5C, 0x5C, 0x5C, 0x5C,
      0x5C, 0x5C, 0x5C, 0x5C, 0x5C, 0x5C, 0x5C, 0x5C, 0x5C, 0x5C, 0x5C, 0x5C, 0x5C, 0x5C, 0x5C, 0x5C,
      0x5C, 0x5C, 0x5C, 0x5C, 0x5C, 0x5C, 0x5C, 0x5C, 0x5C, 0x5C, 0x5C, 0x5C, 0x5C, 0x5C, 0x5C, 0x5C,
      0x5C, 0x5C, 0x5C, 0x5C, 0x5C, 0x5C, 0x5C, 0x5C, 0x5C, 0x5C, 0x5C, 0x5C, 0x5C, 0x5C, 0x5C, 0x5C,
      0x5C, 0x5C, 0x5C, 0x5C, 0x5C, 0x5C, 0x5C, 0x5C, 0x5C, 0x5C, 0x5C, 0x5C, 0x5C, 0x5C, 0x5C, 0x5C,
      0x6D, 0x41, 0x31, 0xBB, 0x02, 0xF1, 0xC0, 0x06, 0xF0, 0x17, 0x49, 0x19, 0x62, 0xA2, 0x93, 0xDA,
      0x64, 0xD1, 0xD5, 0x6A, 0xE9, 0x30, 0xE0, 0x38, 0x75, 0xDC, 0xCE, 0xE0, 0xEF, 0xEB, 0x7E, 0x33,
      0xF3, 0x67, 0x51, 0x14, 0xCC, 0xFE, 0x59, 0x7F, 0x6F, 0x9D, 0x92, 0x6D, 0xB5, 0x95, 0xCD, 0xE9,
      0xA0, 0x5A, 0xF7, 0xA4, 0x4C, 0x2C, 0xB9, 0x38, 0xD9, 0xD8, 0xBA, 0xEB, 0xB9, 0x96, 0x12, 0x37]
   = [0x2B, 0x4B, 0xE7, 0xF1, 0x9E, 0xE2, 0x7B, 0xBF, 0x30, 0xC6, 0x67, 0xB6, 0x42, 0xD5, 0xF4, 0xAA,
      0x69, 0xFD, 0x16, 0x98, 0x72, 0xF8, 0xFC, 0x30, 0x59, 0xC0, 0x8E, 0xBA, 0xE2, 0xEB, 0x19, 0xE7,
      0x90, 0x04, 0x6A, 0x93, 0xDE, 0x53, 0x80, 0xA7, 0x2B, 0x5E, 0x45, 0x01, 0x07, 0x48, 0x56, 0x7D,
      0x5E, 0xA0, 0x2B, 0xBF, 0x65, 0x22, 0xF9, 0x79, 0xE0, 0x5C, 0x0D, 0x8D, 0x8C, 0xA9, 0xFF, 0xFB]"
  apply (simp add: sha512_digest_def sha_pad_def len_be_def chunks_numeral replicate_numeral)
  apply (simp only: sha_eval)
  done

lemma hmac_key_seed:
  "hmac sha512 SEED_KEY tv1_seed
   = [0x2B, 0x4B, 0xE7, 0xF1, 0x9E, 0xE2, 0x7B, 0xBF, 0x30, 0xC6, 0x67, 0xB6, 0x42, 0xD5, 0xF4, 0xAA,
      0x69, 0xFD, 0x16, 0x98, 0x72, 0xF8, 0xFC, 0x30, 0x59, 0xC0, 0x8E, 0xBA, 0xE2, 0xEB, 0x19, 0xE7,
      0x90, 0x04, 0x6A, 0x93, 0xDE, 0x53, 0x80, 0xA7, 0x2B, 0x5E, 0x45, 0x01, 0x07, 0x48, 0x56, 0x7D,
      0x5E, 0xA0, 0x2B, 0xBF, 0x65, 0x22, 0xF9, 0x79, 0xE0, 0x5C, 0x0D, 0x8D, 0x8C, 0xA9, 0xFF, 0xFB]"
  by (simp add: hmac_def sha512_def replicate_numeral tv1_seed_def SEED_KEY_def hmac_key_seed_inner hmac_key_seed_outer)

lemma hmac_buf_chain_inner:
  "sha512_digest
     [0x36, 0x63, 0xC2, 0x8A, 0x19, 0x81, 0x8D, 0xC3, 0x01, 0x17, 0x1A, 0x4C, 0xB8, 0xF3, 0x3F, 0x56,
      0xFB, 0xD6, 0x3D, 0xBC, 0x90, 0x93, 0xC7, 0xCB, 0x13, 0x69, 0x23, 0x87, 0xC0, 0xA1, 0x58, 0x99,
      0x58, 0xB6, 0x36, 0x36, 0x36, 0x36, 0x36, 0x36, 0x36, 0x36, 0x36, 0x36, 0x36, 0x36, 0x36, 0x36,
      0x36, 0x36, 0x36, 0x36, 0x36, 0x36, 0x36, 0x36, 0x36, 0x36, 0x36, 0x36, 0x36, 0x36, 0x36, 0x36,
      0x36, 0x36, 0x36, 0x36, 0x36, 0x36, 0x36, 0x36, 0x36, 0x36, 0x36, 0x36, 0x36, 0x36, 0x36, 0x36,
      0x36, 0x36, 0x36, 0x36, 0x36, 0x36, 0x36, 0x36, 0x36, 0x36, 0x36, 0x36, 0x36, 0x36, 0x36, 0x36,
      0x36, 0x36, 0x36, 0x36, 0x36, 0x36, 0x36, 0x36, 0x36, 0x36, 0x36, 0x36, 0x36, 0x36, 0x36, 0x36,
      0x36, 0x36, 0x36, 0x36, 0x36, 0x36, 0x36, 0x36, 0x36, 0x36, 0x36, 0x36, 0x36, 0x36, 0x36, 0x36,
      0x07, 0x2B, 0x14, 0x69, 0x2C, 0x00, 0x2A, 0x02, 0x8B, 0xEE, 0x5B, 0xD4, 0x49, 0x47, 0x67, 0x91,
      0x68, 0x6D, 0x4D, 0x60, 0x9A, 0x7C, 0x1B, 0x04, 0x3D, 0xF1, 0x40, 0x1B, 0x3F, 0xE4, 0x7B, 0xE0]
   = [0xE1, 0x7F, 0x91, 0xE8, 0x66, 0x8B, 0x1F, 0x1E, 0xA5, 0xA2, 0x2E, 0x96, 0x66, 0x19, 0xCF, 0x09,
      0xA1, 0xE0, 0xB5, 0x8C, 0x8F, 0x59, 0xAD, 0x21, 0x27, 0x0F, 0x0B, 0x18, 0x39, 0x80, 0x57, 0xB2,
      0x58, 0x85, 0xEC, 0x46, 0xDE, 0x7B, 0x5E, 0x6F, 0x63, 0xFF, 0x26, 0x02, 0xF8, 0x9F, 0x22, 0x05,
      0x0F, 0xD3, 0x89, 0x36, 0xAD, 0x44, 0x56, 0xD4, 0xBF, 0x42, 0xA7, 0x36, 0x1C, 0x54, 0x48, 0x45]"
  apply (simp add: sha512_digest_def sha_pad_def len_be_def chunks_numeral replicate_numeral)
  apply (simp only: sha_eval)
  done

lemma hmac_buf_chain_outer:
  "sha512_digest
     [0x5C, 0x09, 0xA8, 0xE0, 0x73, 0xEB, 0xE7, 0xA9, 0x6B, 0x7D, 0x70, 0x26, 0xD2, 0x99, 0x55, 0x3C,
      0x91, 0xBC, 0x57, 0xD6, 0xFA, 0xF9, 0xAD, 0xA1, 0x79, 0x03, 0x49, 0xED, 0xAA, 0xCB, 0x32, 0xF3,
      0x32, 0xDC, 0x5C, 0x5C, 0x5C, 0x5C, 0x5C, 0x5C, 0x5C, 0x5C, 0x5C, 0x5C, 0x5C, 0x5C, 0x5C, 0x5C,
      0x5C, 0x5C, 0x5C, 0x5C, 0x5C, 0x5C, 0x5C, 0x5C, 0x5C, 0x5C, 0x5C, 0x5C, 0x5C, 0x5C, 0x5C, 0x5C,
      0x5C, 0x5C, 0x5C, 0x5C, 0x5C, 0x5C, 0x5C, 0x5C, 0x5C, 0x5C, 0x5C, 0x5C, 0x5C, 0x5C, 0x5C, 0x5C,
      0x5C, 0x5C, 0x5C, 0x5C, 0x5C, 0x5C, 0x5C, 0x5C, 0x5C, 0x5C, 0x5C, 0x5C, 0x5C, 0x5C, 0x5C, 0x5C,
      0x5C, 0x5C, 0x5C, 0x5C, 0x5C, 0x5C, 0x5C, 0x5C, 0x5C, 0x5C, 0x5C, 0x5C, 0x5C, 0x5C, 0x5C, 0x5C,
      0x5C, 0x5C, 0x5C, 0x5C, 0x5C, 0x5C, 0x5C, 0x5C, 0x5C, 0x5C, 0x5C, 0x5C, 0x5C, 0x5C, 0x5C, 0x5C,
      0xE1, 0x7F, 0x91, 0xE8, 0x66, 0x8B, 0x1F, 0x1E, 0xA5, 0xA2, 0x2E, 0x96, 0x66, 0x19, 0xCF, 0x09,
      0xA1, 0xE0, 0xB5, 0x8C, 0x8F, 0x59, 0xAD, 0x21, 0x27, 0x0F, 0x0B, 0x18, 0x39, 0x80, 0x57, 0xB2,
      0x58, 0x85, 0xEC, 0x46, 0xDE, 0x7B, 0x5E, 0x6F, 0x63, 0xFF, 0x26, 0x02, 0xF8, 0x9F, 0x22, 0x05,
      0x0F, 0xD3, 0x89, 0x36, 0xAD, 0x44, 0x56, 0xD4, 0xBF, 0x42, 0xA7, 0x36, 0x1C, 0x54, 0x48, 0x45]
   = [0xD1, 0xE8, 0x23, 0x29, 0x45, 0xB3, 0xC7, 0x4B, 0x2E, 0xB5, 0xFC, 0x1D, 0x5E, 0x65, 0xE3, 0x64,
      0x1D, 0x81, 0x06, 0xA9, 0x58, 0x9E, 0x54, 0x15, 0x08, 0x4E, 0xDC, 0x1A, 0x4C, 0xB4, 0xE2, 0x26,
      0x6A, 0x40, 0x80, 0xAD, 0xDB, 0xFE, 0x5E, 0x53, 0xC3, 0x40, 0xEC, 0xEF, 0x21, 0xE2, 0x11, 0xA8,
      0x20, 0x01, 0xA1, 0x39, 0x71, 0x42, 0xE9, 0x8E, 0x52, 0x87, 0xA4, 0x8A, 0xE7, 0xCA, 0x70, 0x8A]"
  apply (simp add: sha512_digest_def sha_pad_def len_be_def chunks_numeral replicate_numeral)
  apply (simp only: sha_eval)
  done

lemma hmac_buf_chain:
  "hmac sha512 [0x00, 0x55, 0xF4, 0xBC, 0x2F, 0xB7, 0xBB, 0xF5, 0x37, 0x21, 0x2C, 0x7A, 0x8E, 0xC5, 0x09, 0x60,
       0xCD, 0xE0, 0x0B, 0x8A, 0xA6, 0xA5, 0xF1, 0xFD, 0x25, 0x5F, 0x15, 0xB1, 0xF6, 0x97, 0x6E, 0xAF,
       0x6E, 0x80, 0x00, 0x00, 0x00] [0x07, 0x2B, 0x14, 0x69, 0x2C, 0x00, 0x2A, 0x02, 0x8B, 0xEE, 0x5B, 0xD4, 0x49, 0x47, 0x67, 0x91,
       0x68, 0x6D, 0x4D, 0x60, 0x9A, 0x7C, 0x1B, 0x04, 0x3D, 0xF1, 0x40, 0x1B, 0x3F, 0xE4, 0x7B, 0xE0]
   = [0xD1, 0xE8, 0x23, 0x29, 0x45, 0xB3, 0xC7, 0x4B, 0x2E, 0xB5, 0xFC, 0x1D, 0x5E, 0x65, 0xE3, 0x64,
      0x1D, 0x81, 0x06, 0xA9, 0x58, 0x9E, 0x54, 0x15, 0x08, 0x4E, 0xDC, 0x1A, 0x4C, 0xB4, 0xE2, 0x26,
      0x6A, 0x40, 0x80, 0xAD, 0xDB, 0xFE, 0x5E, 0x53, 0xC3, 0x40, 0xEC, 0xEF, 0x21, 0xE2, 0x11, 0xA8,
      0x20, 0x01, 0xA1, 0x39, 0x71, 0x42, 0xE9, 0x8E, 0x52, 0x87, 0xA4, 0x8A, 0xE7, 0xCA, 0x70, 0x8A]"
  by (simp add: hmac_def sha512_def replicate_numeral  hmac_buf_chain_inner hmac_buf_chain_outer)

lemma hmac_chain_buf_inner:
  "sha512_digest
     [0x31, 0x1D, 0x22, 0x5F, 0x1A, 0x36, 0x1C, 0x34, 0xBD, 0xD8, 0x6D, 0xE2, 0x7F, 0x71, 0x51, 0xA7,
      0x5E, 0x5B, 0x7B, 0x56, 0xAC, 0x4A, 0x2D, 0x32, 0x0B, 0xC7, 0x76, 0x2D, 0x09, 0xD2, 0x4D, 0xD6,
      0x36, 0x36, 0x36, 0x36, 0x36, 0x36, 0x36, 0x36, 0x36, 0x36, 0x36, 0x36, 0x36, 0x36, 0x36, 0x36,
      0x36, 0x36, 0x36, 0x36, 0x36, 0x36, 0x36, 0x36, 0x36, 0x36, 0x36, 0x36, 0x36, 0x36, 0x36, 0x36,
      0x36, 0x36, 0x36, 0x36, 0x36, 0x36, 0x36, 0x36, 0x36, 0x36, 0x36, 0x36, 0x36, 0x36, 0x36, 0x36,
      0x36, 0x36, 0x36, 0x36, 0x36, 0x36, 0x36, 0x36, 0x36, 0x36, 0x36, 0x36, 0x36, 0x36, 0x36, 0x36,
      0x36, 0x36, 0x36, 0x36, 0x36, 0x36, 0x36, 0x36, 0x36, 0x36, 0x36, 0x36, 0x36, 0x36, 0x36, 0x36,
      0x36, 0x36, 0x36, 0x36, 0x36, 0x36, 0x36, 0x36, 0x36, 0x36, 0x36, 0x36, 0x36, 0x36, 0x36, 0x36,
      0x00, 0x55, 0xF4, 0xBC, 0x2F, 0xB7, 0xBB, 0xF5, 0x37, 0x21, 0x2C, 0x7A, 0x8E, 0xC5, 0x09, 0x60,
      0xCD, 0xE0, 0x0B, 0x8A, 0xA6, 0xA5, 0xF1, 0xFD, 0x25, 0x5F, 0x15, 0xB1, 0xF6, 0x97, 0x6E, 0xAF,
      0x6E, 0x80, 0x00, 0x00, 0x00]
   = [0x21, 0x29, 0xDE, 0x2D, 0x1C, 0x85, 0x87, 0x32, 0x2A, 0x3B, 0x22, 0x4A, 0xF8, 0x91, 0xE1, 0x08,
      0x61, 0x9D, 0x89, 0xCC, 0xD4, 0x71, 0x1E, 0x64, 0xC9, 0xFB, 0x28, 0x43, 0x7C, 0x5F, 0x2B, 0xCB,
      0xB9, 0x0E, 0xE7, 0x10, 0x73, 0x1D, 0xB7, 0x27, 0x44, 0x8F, 0x1E, 0x65, 0x95, 0xCB, 0x4E, 0x6D,
      0xC0, 0x54, 0x0A, 0xA2, 0x02, 0x27, 0xBF, 0xEB, 0xAF, 0xEF, 0x41, 0xB3, 0x19, 0x55, 0xC2, 0x25]"
  apply (simp add: sha512_digest_def sha_pad_def len_be_def chunks_numeral replicate_numeral)
  apply (simp only: sha_eval)
  done

lemma hmac_chain_buf_outer:
  "sha512_digest
     [0x5B, 0x77, 0x48, 0x35, 0x70, 0x5C, 0x76, 0x5E, 0xD7, 0xB2, 0x07, 0x88, 0x15, 0x1B, 0x3B, 0xCD,
      0x34, 0x31, 0x11, 0x3C, 0xC6, 0x20, 0x47, 0x58, 0x61, 0xAD, 0x1C, 0x47, 0x63, 0xB8, 0x27, 0xBC,
      0x5C, 0x5C, 0x5C, 0x5C, 0x5C, 0x5C, 0x5C, 0x5C, 0x5C, 0x5C, 0x5C, 0x5C, 0x5C, 0x5C, 0x5C, 0x5C,
      0x5C, 0x5C, 0x5C, 0x5C, 0x5C, 0x5C, 0x5C, 0x5C, 0x5C, 0x5C, 0x5C, 0x5C, 0x5C, 0x5C, 0x5C, 0x5C,
      0x5C, 0x5C, 0x5C, 0x5C, 0x5C, 0x5C, 0x5C, 0x5C, 0x5C, 0x5C, 0x5C, 0x5C, 0x5C, 0x5C, 0x5C, 0x5C,
      0x5C, 0x5C, 0x5C, 0x5C, 0x5C, 0x5C, 0x5C, 0x5C, 0x5C, 0x5C, 0x5C, 0x5C, 0x5C, 0x5C, 0x5C, 0x5C,
      0x5C, 0x5C, 0x5C, 0x5C, 0x5C, 0x5C, 0x5C, 0x5C, 0x5C, 0x5C, 0x5C, 0x5C, 0x5C, 0x5C, 0x5C, 0x5C,
      0x5C, 0x5C, 0x5C, 0x5C, 0x5C, 0x5C, 0x5C, 0x5C, 0x5C, 0x5C, 0x5C, 0x5C, 0x5C, 0x5C, 0x5C, 0x5C,
      0x21, 0x29, 0xDE, 0x2D, 0x1C, 0x85, 0x87, 0x32, 0x2A, 0x3B, 0x22, 0x4A, 0xF8, 0x91, 0xE1, 0x08,
      0x61, 0x9D, 0x89, 0xCC, 0xD4, 0x71, 0x1E, 0x64, 0xC9, 0xFB, 0x28, 0x43, 0x7C, 0x5F, 0x2B, 0xCB,
      0xB9, 0x0E, 0xE7, 0x10, 0x73, 0x1D, 0xB7, 0x27, 0x44, 0x8F, 0x1E, 0x65, 0x95, 0xCB, 0x4E, 0x6D,
      0xC0, 0x54, 0x0A, 0xA2, 0x02, 0x27, 0xBF, 0xEB, 0xAF, 0xEF, 0x41, 0xB3, 0x19, 0x55, 0xC2, 0x25]
   = [0x6D, 0xB4, 0x4B, 0xB1, 0xD5, 0x65, 0x07, 0xD6, 0x65, 0x32, 0xD7, 0xE5, 0x3E, 0x8B, 0x3B, 0x34,
      0x4A, 0xDE, 0x26, 0xB0, 0x0B, 0x37, 0x91, 0x9A, 0x83, 0x01, 0xF5, 0xC4, 0x14, 0x20, 0xAE, 0xE7,
      0x48, 0xE7, 0x20, 0xC2, 0x4D, 0x4E, 0x10, 0xC2, 0x77, 0x54, 0xCC, 0x37, 0x91, 0x98, 0x52, 0x3D,
      0x33, 0x47, 0x13, 0x30, 0x58, 0xD1, 0x43, 0xDE, 0x06, 0x48, 0x27, 0x9B, 0xE0, 0xFB, 0x54, 0x1F]"
  apply (simp add: sha512_digest_def sha_pad_def len_be_def chunks_numeral replicate_numeral)
  apply (simp only: sha_eval)
  done

lemma hmac_chain_buf:
  "hmac sha512 [0x07, 0x2B, 0x14, 0x69, 0x2C, 0x00, 0x2A, 0x02, 0x8B, 0xEE, 0x5B, 0xD4, 0x49, 0x47, 0x67, 0x91,
       0x68, 0x6D, 0x4D, 0x60, 0x9A, 0x7C, 0x1B, 0x04, 0x3D, 0xF1, 0x40, 0x1B, 0x3F, 0xE4, 0x7B, 0xE0] [0x00, 0x55, 0xF4, 0xBC, 0x2F, 0xB7, 0xBB, 0xF5, 0x37, 0x21, 0x2C, 0x7A, 0x8E, 0xC5, 0x09, 0x60,
       0xCD, 0xE0, 0x0B, 0x8A, 0xA6, 0xA5, 0xF1, 0xFD, 0x25, 0x5F, 0x15, 0xB1, 0xF6, 0x97, 0x6E, 0xAF,
       0x6E, 0x80, 0x00, 0x00, 0x00]
   = [0x6D, 0xB4, 0x4B, 0xB1, 0xD5, 0x65, 0x07, 0xD6, 0x65, 0x32, 0xD7, 0xE5, 0x3E, 0x8B, 0x3B, 0x34,
      0x4A, 0xDE, 0x26, 0xB0, 0x0B, 0x37, 0x91, 0x9A, 0x83, 0x01, 0xF5, 0xC4, 0x14, 0x20, 0xAE, 0xE7,
      0x48, 0xE7, 0x20, 0xC2, 0x4D, 0x4E, 0x10, 0xC2, 0x77, 0x54, 0xCC, 0x37, 0x91, 0x98, 0x52, 0x3D,
      0x33, 0x47, 0x13, 0x30, 0x58, 0xD1, 0x43, 0xDE, 0x06, 0x48, 0x27, 0x9B, 0xE0, 0xFB, 0x54, 0x1F]"
  by (simp add: hmac_def sha512_def replicate_numeral  hmac_chain_buf_inner hmac_chain_buf_outer)

section \<open>The arguments of \<open>hmac\<close>\<close>

text \<open>
  What both files compute for the path \<open>m\<close>: the seed is passed to \<open>hmac\<close> as the key and
  the fixed string as the message.
\<close>

lemma parse_m: "parsePath_ts (js ''m'') = Inr []"
  by (simp add: parse_defs)

lemma derivePath_m:
  "derivePath_ts seed (js ''m'')
     = Inr \<lparr>key = take 32 (hmac sha512 seed SEED_KEY),
            chainCode = drop 32 (hmac sha512 seed SEED_KEY)\<rparr>"
  by (simp add: derivePath_ts_def parse_m slice_bytes_def slice_from_def Let_def)

lemma spec_masterKey_hmac:
  "spec_masterKey seed
     = \<lparr>key = take 32 (hmac sha512 SEED_KEY seed),
          chainCode = drop 32 (hmac sha512 SEED_KEY seed)\<rparr>"
  unfolding spec_masterKey_def SEED_KEY_def by (simp add: Let_def)

text \<open>
  Claim C1 says that the master pair is HMAC-SHA512 with key \<open>ed25519 seed\<close> and the seed
  as message. Evaluated on the seed of the first SLIP-10 test vector, both files return
  another pair: the HMAC keyed with the seed, of the message \<open>ed25519 seed\<close>. The pair
  of the specification is the published one.
\<close>

theorem master_key_at_test_vector:
  "derivePath_ts tv1_seed (js ''m'') = Inr tv1_master
   \<and> derivePath_js tv1_seed (js ''m'') = Inr tv1_master
   \<and> tv1_master =
       \<lparr>key =
          [0x55, 0xF4, 0xBC, 0x2F, 0xB7, 0xBB, 0xF5, 0x37, 0x21, 0x2C, 0x7A, 0x8E, 0xC5, 0x09, 0x60, 0xCD,
           0xE0, 0x0B, 0x8A, 0xA6, 0xA5, 0xF1, 0xFD, 0x25, 0x5F, 0x15, 0xB1, 0xF6, 0x97, 0x6E, 0xAF, 0x6E],
        chainCode =
          [0x07, 0x2B, 0x14, 0x69, 0x2C, 0x00, 0x2A, 0x02, 0x8B, 0xEE, 0x5B, 0xD4, 0x49, 0x47, 0x67, 0x91,
           0x68, 0x6D, 0x4D, 0x60, 0x9A, 0x7C, 0x1B, 0x04, 0x3D, 0xF1, 0x40, 0x1B, 0x3F, 0xE4, 0x7B, 0xE0]\<rparr>
   \<and> spec_masterKey tv1_seed =
       \<lparr>key =
          [0x2B, 0x4B, 0xE7, 0xF1, 0x9E, 0xE2, 0x7B, 0xBF, 0x30, 0xC6, 0x67, 0xB6, 0x42, 0xD5, 0xF4, 0xAA,
           0x69, 0xFD, 0x16, 0x98, 0x72, 0xF8, 0xFC, 0x30, 0x59, 0xC0, 0x8E, 0xBA, 0xE2, 0xEB, 0x19, 0xE7],
        chainCode =
          [0x90, 0x04, 0x6A, 0x93, 0xDE, 0x53, 0x80, 0xA7, 0x2B, 0x5E, 0x45, 0x01, 0x07, 0x48, 0x56, 0x7D,
           0x5E, 0xA0, 0x2B, 0xBF, 0x65, 0x22, 0xF9, 0x79, 0xE0, 0x5C, 0x0D, 0x8D, 0x8C, 0xA9, 0xFF, 0xFB]\<rparr>"
  by (simp add: derivePath_js_eq_ts derivePath_m hmac_seed_key tv1_master_def
      spec_masterKey_hmac hmac_key_seed)

text \<open>
  Claim C2 says that the child step is HMAC-SHA512 with the parent chain code as key and
  the 37-byte buffer as message. Evaluated on the pair above and the index \<open>0x80000000\<close>
  (the path \<open>m/0'\<close> from the same seed), both files return another pair: the HMAC keyed
  with the buffer, of the parent chain code.
\<close>

theorem child_step_at_test_vector:
  \<open>derive_step_ts tv1_master 0x80000000 =
       Inr \<lparr>key =
          [0xD1, 0xE8, 0x23, 0x29, 0x45, 0xB3, 0xC7, 0x4B, 0x2E, 0xB5, 0xFC, 0x1D, 0x5E, 0x65, 0xE3, 0x64,
           0x1D, 0x81, 0x06, 0xA9, 0x58, 0x9E, 0x54, 0x15, 0x08, 0x4E, 0xDC, 0x1A, 0x4C, 0xB4, 0xE2, 0x26],
        chainCode =
          [0x6A, 0x40, 0x80, 0xAD, 0xDB, 0xFE, 0x5E, 0x53, 0xC3, 0x40, 0xEC, 0xEF, 0x21, 0xE2, 0x11, 0xA8,
           0x20, 0x01, 0xA1, 0x39, 0x71, 0x42, 0xE9, 0x8E, 0x52, 0x87, 0xA4, 0x8A, 0xE7, 0xCA, 0x70, 0x8A]\<rparr>
   \<and> derive_step_js tv1_master 0x80000000 = derive_step_ts tv1_master 0x80000000
   \<and> derivePath_ts tv1_seed (js (''m/0'' @ [CHR 0x27])) = derive_step_ts tv1_master 0x80000000
   \<and> spec_deriveChild tv1_master 0x80000000 =
       \<lparr>key =
          [0x6D, 0xB4, 0x4B, 0xB1, 0xD5, 0x65, 0x07, 0xD6, 0x65, 0x32, 0xD7, 0xE5, 0x3E, 0x8B, 0x3B, 0x34,
           0x4A, 0xDE, 0x26, 0xB0, 0x0B, 0x37, 0x91, 0x9A, 0x83, 0x01, 0xF5, 0xC4, 0x14, 0x20, 0xAE, 0xE7],
        chainCode =
          [0x48, 0xE7, 0x20, 0xC2, 0x4D, 0x4E, 0x10, 0xC2, 0x77, 0x54, 0xCC, 0x37, 0x91, 0x98, 0x52, 0x3D,
           0x33, 0x47, 0x13, 0x30, 0x58, 0xD1, 0x43, 0xDE, 0x06, 0x48, 0x27, 0x9B, 0xE0, 0xFB, 0x54, 0x1F]\<rparr>\<close>
proof -
  have l: "length (key tv1_master) = 32" by (simp add: tv1_master_def)
  have b: "be32 0x80000000 = [0x80, 0, 0, 0]" by (simp add: be32_def)
  have t: "derive_step_ts tv1_master 0x80000000 =
       Inr \<lparr>key =
          [0xD1, 0xE8, 0x23, 0x29, 0x45, 0xB3, 0xC7, 0x4B, 0x2E, 0xB5, 0xFC, 0x1D, 0x5E, 0x65, 0xE3, 0x64,
           0x1D, 0x81, 0x06, 0xA9, 0x58, 0x9E, 0x54, 0x15, 0x08, 0x4E, 0xDC, 0x1A, 0x4C, 0xB4, 0xE2, 0x26],
        chainCode =
          [0x6A, 0x40, 0x80, 0xAD, 0xDB, 0xFE, 0x5E, 0x53, 0xC3, 0x40, 0xEC, 0xEF, 0x21, 0xE2, 0x11, 0xA8,
           0x20, 0x01, 0xA1, 0x39, 0x71, 0x42, 0xE9, 0x8E, 0x52, 0x87, 0xA4, 0x8A, 0xE7, 0xCA, 0x70, 0x8A]\<rparr>"
    unfolding step_buf_ts [OF l] b by (simp add: tv1_master_def hmac_buf_chain Let_def)
  have j: "derive_step_js tv1_master 0x80000000 = derive_step_ts tv1_master 0x80000000"
    by (simp add: step_buf_ts [OF l] step_buf_js [OF l])
  have m: "hmac sha512 tv1_seed SEED_KEY = key tv1_master @ chainCode tv1_master"
    by (simp add: hmac_seed_key tv1_master_def)
  have d: "derivePath_ts tv1_seed (js (''m/0'' @ [CHR 0x27]))
      = derive_step_ts tv1_master 0x80000000"
  proof -
    have "\<lparr>key = slice_bytes (hmac sha512 tv1_seed SEED_KEY) 0 32,
           chainCode = slice_from (hmac sha512 tv1_seed SEED_KEY) 32\<rparr> = tv1_master"
      unfolding m by (simp add: slice_bytes_def slice_from_def l)
    then show ?thesis
      unfolding derivePath_ts_def parse_m_0h by (simp add: Let_def split: sum.splits)
  qed
  have s: "spec_deriveChild tv1_master 0x80000000 =
       \<lparr>key =
          [0x6D, 0xB4, 0x4B, 0xB1, 0xD5, 0x65, 0x07, 0xD6, 0x65, 0x32, 0xD7, 0xE5, 0x3E, 0x8B, 0x3B, 0x34,
           0x4A, 0xDE, 0x26, 0xB0, 0x0B, 0x37, 0x91, 0x9A, 0x83, 0x01, 0xF5, 0xC4, 0x14, 0x20, 0xAE, 0xE7],
        chainCode =
          [0x48, 0xE7, 0x20, 0xC2, 0x4D, 0x4E, 0x10, 0xC2, 0x77, 0x54, 0xCC, 0x37, 0x91, 0x98, 0x52, 0x3D,
           0x33, 0x47, 0x13, 0x30, 0x58, 0xD1, 0x43, 0xDE, 0x06, 0x48, 0x27, 0x9B, 0xE0, 0xFB, 0x54, 0x1F]\<rparr>"
    unfolding spec_deriveChild_def b by (simp add: tv1_master_def hmac_chain_buf Let_def)
  from t j d s show ?thesis by (intro conjI)
qed

end
